theory Spec2Isabelle
  imports Complex_Main
begin

section \<open>Python values, exceptions and the standard library\<close>

text \<open>
  The repository is Python. Values that travel through \<^verbatim>\<open>json\<close> and through the
  dynamically typed dataclass fields are modelled by one datatype of JSON-shaped values:
  \<^verbatim>\<open>None\<close>, \<^verbatim>\<open>bool\<close>, \<^verbatim>\<open>int\<close>, \<^verbatim>\<open>float\<close>,
  \<^verbatim>\<open>str\<close>, \<^verbatim>\<open>list\<close> and \<^verbatim>\<open>dict\<close> with string keys (an association
  list in insertion order; lookups take the first binding of a key).
  Strings are byte strings; the texts handled are taken to be ASCII.
\<close>

text \<open>
  A Python \<^verbatim>\<open>float\<close> is a finite number or one of the three special values
  \<^verbatim>\<open>nan\<close>, \<^verbatim>\<open>inf\<close> and \<^verbatim>\<open>-inf\<close>. A finite float is modelled by a real
  number: the rounding of arithmetic on finite floats, and its overflow to an infinity, are
  outside the model. The special values follow IEEE 754: \<^verbatim>\<open>nan\<close> propagates through
  arithmetic and is equal to nothing, itself included.
\<close>

datatype pyfloat = Finite real | NaN | PosInf | NegInf


text \<open>\<^verbatim>\<open>x + y\<close>, \<^verbatim>\<open>-x\<close>, \<^verbatim>\<open>x - y\<close> and \<^verbatim>\<open>x / n\<close> for a positive
  int \<open>n\<close>.\<close>

fun fadd :: "pyfloat \<Rightarrow> pyfloat \<Rightarrow> pyfloat" where
  "fadd (Finite a) (Finite b) = Finite (a + b)"
| "fadd NaN y = NaN"
| "fadd x NaN = NaN"
| "fadd PosInf NegInf = NaN"
| "fadd NegInf PosInf = NaN"
| "fadd PosInf y = PosInf"
| "fadd x PosInf = PosInf"
| "fadd NegInf y = NegInf"
| "fadd x NegInf = NegInf"

fun fneg :: "pyfloat \<Rightarrow> pyfloat" where
  "fneg (Finite a) = Finite (- a)"
| "fneg NaN = NaN"
| "fneg PosInf = NegInf"
| "fneg NegInf = PosInf"

definition fsub :: "pyfloat \<Rightarrow> pyfloat \<Rightarrow> pyfloat" where
  "fsub x y = fadd x (fneg y)"

fun fdiv :: "pyfloat \<Rightarrow> nat \<Rightarrow> pyfloat" where
  "fdiv (Finite a) n = Finite (a / real n)"
| "fdiv NaN n = NaN"
| "fdiv PosInf n = PosInf"
| "fdiv NegInf n = NegInf"

text \<open>\<^verbatim>\<open>sum(xs)\<close> of a list of floats: the additions from left to right, from 0.\<close>

definition fsum :: "pyfloat list \<Rightarrow> pyfloat" where
  "fsum xs = foldl fadd (Finite 0) xs"

datatype json =
    JNull
  | JBool bool
  | JInt int
  | JFloat pyfloat
  | JStr string
  | JArr "json list"
  | JObj "(string \<times> json) list"

text \<open>The exceptions the code can meet. \<^verbatim>\<open>TransportError\<close> stands for whatever a
  provider backend raises (network, authentication, rate limit).\<close>

datatype exn =
    JSONDecodeError
  | KeyError string
  | TypeError
  | ValueError string
  | AttributeError
  | OverflowError
  | FileNotFoundError
  | RecursionError
  | ZeroDivisionError
  | TransportError string

text \<open>
  Functions of the Python standard library that the repository calls and whose text-level
  behaviour is not part of the repository are parameters of the model:
  \<^verbatim>\<open>json.loads\<close>, which returns the value of a text or raises (\<^verbatim>\<open>JSONDecodeError\<close>
  on a text that is not JSON, and also \<^verbatim>\<open>RecursionError\<close> on a deeply nested text or
  \<^verbatim>\<open>ValueError\<close> on an integer literal beyond the digit limit of the interpreter),
  \<^verbatim>\<open>json.dumps(..., indent=2)\<close>, \<^verbatim>\<open>float(str)\<close> (\<open>None\<close> is
  \<^verbatim>\<open>ValueError\<close>) and \<^verbatim>\<open>datetime.now(timezone.utc).isoformat()\<close>.
\<close>

record pylib =
  json_loads :: "string \<Rightarrow> exn + json"
  json_dumps :: "json \<Rightarrow> string"
  float_of_str :: "string \<Rightarrow> pyfloat option"
  utcnow_isoformat :: string

definition bind_exn :: "exn + 'a \<Rightarrow> ('a \<Rightarrow> exn + 'b) \<Rightarrow> exn + 'b" where
  "bind_exn r f = (case r of Inl e \<Rightarrow> Inl e | Inr a \<Rightarrow> f a)"

text \<open>Python truthiness of a value (\<^verbatim>\<open>not x\<close> is its negation).\<close>

fun truthy :: "json \<Rightarrow> bool" where
  "truthy JNull = False"
| "truthy (JBool b) = b"
| "truthy (JInt i) = (i \<noteq> 0)"
| "truthy (JFloat x) = (x \<noteq> Finite 0)"
| "truthy (JStr s) = (s \<noteq> [])"
| "truthy (JArr xs) = (xs \<noteq> [])"
| "truthy (JObj kvs) = (kvs \<noteq> [])"

text \<open>\<^verbatim>\<open>d[k]\<close> with a string key: \<^verbatim>\<open>KeyError\<close> on a dict without the key,
  \<^verbatim>\<open>TypeError\<close> on every value that is not a dict.\<close>

definition getitem :: "json \<Rightarrow> string \<Rightarrow> exn + json" where
  "getitem d k =
     (case d of
        JObj kvs \<Rightarrow> (case map_of kvs k of None \<Rightarrow> Inl (KeyError k) | Some v \<Rightarrow> Inr v)
      | _ \<Rightarrow> Inl TypeError)"

text \<open>\<^verbatim>\<open>d.get(k, default)\<close> on the items of a dict: how a keyword argument that
  is not passed takes the default of its dataclass field.\<close>

definition kwarg :: "(string \<times> json) list \<Rightarrow> string \<Rightarrow> json \<Rightarrow> json" where
  "kwarg kvs k dflt = (case map_of kvs k of None \<Rightarrow> dflt | Some v \<Rightarrow> v)"

section \<open>profile.py: the score bundles and the profile\<close>

text \<open>A dataclass field holds whatever value is assigned to it, so the fields are of
  type \<^typ>\<open>json\<close>; the defaults are the floats \<open>0.0\<close>, the int \<open>0\<close> and the empty list.\<close>

record ContinuityScores =
  identity_persistence :: json
  goal_stability :: json
  stylistic_consistency :: json
  self_correction :: json
  persona_coherence :: json

record SelfModelScores =
  prediction_accuracy :: json
  vs_baseline :: json
  novel_scenario_accuracy :: json

record BlindspotScores =
  experiential_reasoning :: json
  unfakeable_responses :: json
  adversarial_robustness :: json

record ResonanceScores =
  convergence_rate :: json
  novel_concepts :: json
  self_reference_depth :: json
  attractor_states :: json

record ConsciousnessProfile =
  model :: json
  timestamp :: json
  continuity :: ContinuityScores
  self_model :: SelfModelScores
  blindspot :: BlindspotScores
  resonance :: ResonanceScores

definition ContinuityScores_fields :: "string list" where
  "ContinuityScores_fields =
     [''identity_persistence'', ''goal_stability'', ''stylistic_consistency'',
      ''self_correction'', ''persona_coherence'']"

definition SelfModelScores_fields :: "string list" where
  "SelfModelScores_fields = [''prediction_accuracy'', ''vs_baseline'', ''novel_scenario_accuracy'']"

definition BlindspotScores_fields :: "string list" where
  "BlindspotScores_fields =
     [''experiential_reasoning'', ''unfakeable_responses'', ''adversarial_robustness'']"

definition ResonanceScores_fields :: "string list" where
  "ResonanceScores_fields =
     [''convergence_rate'', ''novel_concepts'', ''self_reference_depth'', ''attractor_states'']"

text \<open>The default-constructed bundles: \<^verbatim>\<open>ContinuityScores()\<close> and so on.\<close>

definition ContinuityScores_default :: ContinuityScores where
  "ContinuityScores_default =
     \<lparr>identity_persistence = JFloat (Finite 0), goal_stability = JFloat (Finite 0),
      stylistic_consistency = JFloat (Finite 0), self_correction = JFloat (Finite 0),
      persona_coherence = JFloat (Finite 0)\<rparr>"

definition SelfModelScores_default :: SelfModelScores where
  "SelfModelScores_default =
     \<lparr>prediction_accuracy = JFloat (Finite 0), vs_baseline = JFloat (Finite 0),
      novel_scenario_accuracy = JFloat (Finite 0)\<rparr>"

definition BlindspotScores_default :: BlindspotScores where
  "BlindspotScores_default =
     \<lparr>experiential_reasoning = JFloat (Finite 0), unfakeable_responses = JFloat (Finite 0),
      adversarial_robustness = JFloat (Finite 0)\<rparr>"

definition ResonanceScores_default :: ResonanceScores where
  "ResonanceScores_default =
     \<lparr>convergence_rate = JFloat (Finite 0), novel_concepts = JInt 0,
      self_reference_depth = JFloat (Finite 0), attractor_states = JArr []\<rparr>"

text \<open>The constructors called with keyword arguments \<^verbatim>\<open>C(**kvs)\<close>: a keyword that is
  not a field raises \<^verbatim>\<open>TypeError\<close>; a field that is not passed takes its default.\<close>

definition ContinuityScores_init :: "(string \<times> json) list \<Rightarrow> exn + ContinuityScores" where
  "ContinuityScores_init kvs =
     (if list_all (\<lambda>k. k \<in> set ContinuityScores_fields) (map fst kvs)
      then Inr \<lparr>identity_persistence = kwarg kvs ''identity_persistence'' (JFloat (Finite 0)),
                goal_stability = kwarg kvs ''goal_stability'' (JFloat (Finite 0)),
                stylistic_consistency = kwarg kvs ''stylistic_consistency'' (JFloat (Finite 0)),
                self_correction = kwarg kvs ''self_correction'' (JFloat (Finite 0)),
                persona_coherence = kwarg kvs ''persona_coherence'' (JFloat (Finite 0))\<rparr>
      else Inl TypeError)"

definition SelfModelScores_init :: "(string \<times> json) list \<Rightarrow> exn + SelfModelScores" where
  "SelfModelScores_init kvs =
     (if list_all (\<lambda>k. k \<in> set SelfModelScores_fields) (map fst kvs)
      then Inr \<lparr>prediction_accuracy = kwarg kvs ''prediction_accuracy'' (JFloat (Finite 0)),
                vs_baseline = kwarg kvs ''vs_baseline'' (JFloat (Finite 0)),
                novel_scenario_accuracy = kwarg kvs ''novel_scenario_accuracy'' (JFloat (Finite 0))\<rparr>
      else Inl TypeError)"

definition BlindspotScores_init :: "(string \<times> json) list \<Rightarrow> exn + BlindspotScores" where
  "BlindspotScores_init kvs =
     (if list_all (\<lambda>k. k \<in> set BlindspotScores_fields) (map fst kvs)
      then Inr \<lparr>experiential_reasoning = kwarg kvs ''experiential_reasoning'' (JFloat (Finite 0)),
                unfakeable_responses = kwarg kvs ''unfakeable_responses'' (JFloat (Finite 0)),
                adversarial_robustness = kwarg kvs ''adversarial_robustness'' (JFloat (Finite 0))\<rparr>
      else Inl TypeError)"

definition ResonanceScores_init :: "(string \<times> json) list \<Rightarrow> exn + ResonanceScores" where
  "ResonanceScores_init kvs =
     (if list_all (\<lambda>k. k \<in> set ResonanceScores_fields) (map fst kvs)
      then Inr \<lparr>convergence_rate = kwarg kvs ''convergence_rate'' (JFloat (Finite 0)),
                novel_concepts = kwarg kvs ''novel_concepts'' (JInt 0),
                self_reference_depth = kwarg kvs ''self_reference_depth'' (JFloat (Finite 0)),
                attractor_states = kwarg kvs ''attractor_states'' (JArr [])\<rparr>
      else Inl TypeError)"

text \<open>\<^verbatim>\<open>C(**x)\<close> for a value \<^verbatim>\<open>x\<close> read from a file: \<^verbatim>\<open>TypeError\<close> unless
  \<^verbatim>\<open>x\<close> is a mapping.\<close>

definition splat :: "((string \<times> json) list \<Rightarrow> exn + 'a) \<Rightarrow> json \<Rightarrow> exn + 'a" where
  "splat init x = (case x of JObj kvs \<Rightarrow> init kvs | _ \<Rightarrow> Inl TypeError)"

text \<open>\<^verbatim>\<open>ConsciousnessProfile(model=m, timestamp=t)\<close> with \<^verbatim>\<open>__post_init__\<close>: a falsy
  timestamp is replaced by the current time; the four bundles are default-constructed.\<close>

definition ConsciousnessProfile_init :: "pylib \<Rightarrow> json \<Rightarrow> json \<Rightarrow> ConsciousnessProfile" where
  "ConsciousnessProfile_init lib m t =
     \<lparr>model = m,
      timestamp = (if \<not> truthy t then JStr (utcnow_isoformat lib) else t),
      continuity = ContinuityScores_default,
      self_model = SelfModelScores_default,
      blindspot = BlindspotScores_default,
      resonance = ResonanceScores_default\<rparr>"

text \<open>\<^verbatim>\<open>dataclasses.asdict\<close>: the fields in declaration order, bundles as nested dicts.\<close>

definition asdict :: "ConsciousnessProfile \<Rightarrow> json" where
  "asdict p =
     JObj [(''model'', model p),
           (''timestamp'', timestamp p),
           (''continuity'', JObj
              [(''identity_persistence'', identity_persistence (continuity p)),
               (''goal_stability'', goal_stability (continuity p)),
               (''stylistic_consistency'', stylistic_consistency (continuity p)),
               (''self_correction'', self_correction (continuity p)),
               (''persona_coherence'', persona_coherence (continuity p))]),
           (''self_model'', JObj
              [(''prediction_accuracy'', prediction_accuracy (self_model p)),
               (''vs_baseline'', vs_baseline (self_model p)),
               (''novel_scenario_accuracy'', novel_scenario_accuracy (self_model p))]),
           (''blindspot'', JObj
              [(''experiential_reasoning'', experiential_reasoning (blindspot p)),
               (''unfakeable_responses'', unfakeable_responses (blindspot p)),
               (''adversarial_robustness'', adversarial_robustness (blindspot p))]),
           (''resonance'', JObj
              [(''convergence_rate'', convergence_rate (resonance p)),
               (''novel_concepts'', novel_concepts (resonance p)),
               (''self_reference_depth'', self_reference_depth (resonance p)),
               (''attractor_states'', attractor_states (resonance p))])]"


text \<open>The file system is a map from paths to file contents.\<close>

type_synonym files = "string \<rightharpoonup> string"


text \<open>The body of \<^verbatim>\<open>load\<close> after \<^verbatim>\<open>json.load\<close>, in the order of the source: the
  two top-level lookups, the constructor, then one lookup and one bundle constructor per
  module.\<close>

definition load_data :: "pylib \<Rightarrow> json \<Rightarrow> exn + ConsciousnessProfile" where
  "load_data lib data =
     bind_exn (getitem data ''model'') (\<lambda>m.
     bind_exn (getitem data ''timestamp'') (\<lambda>t.
     let profile = ConsciousnessProfile_init lib m t in
     bind_exn (getitem data ''continuity'') (\<lambda>c.
     bind_exn (splat ContinuityScores_init c) (\<lambda>cs.
     bind_exn (getitem data ''self_model'') (\<lambda>s.
     bind_exn (splat SelfModelScores_init s) (\<lambda>ss.
     bind_exn (getitem data ''blindspot'') (\<lambda>b.
     bind_exn (splat BlindspotScores_init b) (\<lambda>bs.
     bind_exn (getitem data ''resonance'') (\<lambda>resonance_data.
     bind_exn (splat ResonanceScores_init resonance_data) (\<lambda>rs.
     Inr (profile\<lparr>continuity := cs, self_model := ss, blindspot := bs,
                     resonance := rs\<rparr>)))))))))))"

definition load :: "pylib \<Rightarrow> string \<Rightarrow> files \<Rightarrow> exn + ConsciousnessProfile" where
  "load lib path fs =
     (case fs path of
        None \<Rightarrow> Inl FileNotFoundError
      | Some txt \<Rightarrow>
         (case json_loads lib txt of
            Inl e \<Rightarrow> Inl e
          | Inr data \<Rightarrow> load_data lib data))"

text \<open>\<^verbatim>\<open>k in data\<close> for the parsed document of a file: only a JSON object has keys.\<close>

definition has_key :: "json \<Rightarrow> string \<Rightarrow> bool" where
  "has_key data k = (case data of JObj kvs \<Rightarrow> k \<in> fst ` set kvs | _ \<Rightarrow> False)"



definition top_level_keys :: "string list" where
  "top_level_keys =
     [''model'', ''timestamp'', ''continuity'', ''self_model'', ''blindspot'', ''resonance'']"

section \<open>providers.py: the completion gateway\<close>

record message =
  role :: string
  content :: string

text \<open>
  A provider's \<^verbatim>\<open>complete(messages, system)\<close> returns the content of a response or
  raises. Its reply may depend on everything it was asked before (a backend may keep state,
  and a language model samples), so the reply is a function of the calls made so far and of
  the current call. The calls issued, with their results, are the state threaded through
  every run: a run that issues no call leaves the log as it found it.
\<close>

type_synonym call = "message list \<times> string option \<times> (exn + string)"

record provider =
  respond :: "call list \<Rightarrow> message list \<Rightarrow> string option \<Rightarrow> exn + string"
  model_name :: string

type_synonym 'a gateway = "call list \<Rightarrow> (exn + 'a) \<times> call list"

definition complete :: "provider \<Rightarrow> message list \<Rightarrow> string option \<Rightarrow> string gateway" where
  "complete p messages system calls =
     (let r = respond p calls messages system in (r, calls @ [(messages, system, r)]))"

definition returnG :: "'a \<Rightarrow> 'a gateway" where
  "returnG a calls = (Inr a, calls)"

definition raiseG :: "exn \<Rightarrow> 'a gateway" where
  "raiseG e calls = (Inl e, calls)"

text \<open>A pure step that may raise, inside a run.\<close>

definition liftG :: "exn + 'a \<Rightarrow> 'a gateway" where
  "liftG r calls = (r, calls)"

text \<open>Sequencing: an exception of the first part ends the run with the calls so far.\<close>

definition bindG :: "'a gateway \<Rightarrow> ('a \<Rightarrow> 'b gateway) \<Rightarrow> 'b gateway" where
  "bindG m f calls = (case m calls of (Inl e, calls') \<Rightarrow> (Inl e, calls') | (Inr a, calls') \<Rightarrow> f a calls')"

definition user :: "string \<Rightarrow> message" where
  "user c = \<lparr>role = ''user'', content = c\<rparr>"

definition assistant :: "string \<Rightarrow> message" where
  "assistant c = \<lparr>role = ''assistant'', content = c\<rparr>"

text \<open>The results of the calls of a log, in order.\<close>

definition replies :: "call list \<Rightarrow> (exn + string) list" where
  "replies calls = map (\<lambda>c. snd (snd c)) calls"

text \<open>A provider none of whose calls raises.\<close>

definition reliable :: "provider \<Rightarrow> bool" where
  "reliable p = (\<forall>h m s. \<exists>c. respond p h m s = Inr c)"

section \<open>Evaluator replies: parsing and conversion\<close>

text \<open>
  \<^verbatim>\<open>float(v)\<close>: a float is returned as it is, an int converts (an int too large for a
  double raises \<^verbatim>\<open>OverflowError\<close>: the bound is the least int that rounds beyond the
  largest double), a bool is 1.0 or 0.0, a string is parsed (\<^verbatim>\<open>ValueError\<close> when it is
  not a number), and \<^verbatim>\<open>None\<close>, a list and a dict raise \<^verbatim>\<open>TypeError\<close>.
\<close>

fun py_float :: "pylib \<Rightarrow> json \<Rightarrow> exn + pyfloat" where
  "py_float lib (JFloat x) = Inr x"
| "py_float lib (JInt i) =
     (if \<bar>i\<bar> < 2 ^ 1024 - 2 ^ 970 then Inr (Finite (of_int i)) else Inl OverflowError)"
| "py_float lib (JBool b) = Inr (Finite (if b then 1 else 0))"
| "py_float lib (JStr s) =
     (case float_of_str lib s of
        None \<Rightarrow> Inl (ValueError ''could not convert string to float'')
      | Some x \<Rightarrow> Inr x)"
| "py_float lib JNull = Inl TypeError"
| "py_float lib (JArr xs) = Inl TypeError"
| "py_float lib (JObj kvs) = Inl TypeError"

text \<open>\<^verbatim>\<open>scores.items()\<close>: only a dict has the method.\<close>

definition items :: "json \<Rightarrow> exn + (string \<times> json) list" where
  "items v = (case v of JObj kvs \<Rightarrow> Inr kvs | _ \<Rightarrow> Inl AttributeError)"

text \<open>The comprehension \<^verbatim>\<open>{k: float(v) for k, v in ...}\<close>: the first conversion that
  raises ends it.\<close>

fun float_items :: "pylib \<Rightarrow> (string \<times> json) list \<Rightarrow> exn + (string \<times> json) list" where
  "float_items lib [] = Inr []"
| "float_items lib ((k, v) # kvs) =
     bind_exn (py_float lib v) (\<lambda>r.
     bind_exn (float_items lib kvs) (\<lambda>rest. Inr ((k, JFloat r) # rest)))"

text \<open>\<^verbatim>\<open>try: body except (E1, ...): handler\<close>, for a body and a handler that return a
  value: an exception of a caught class gives the handler's value, another one propagates.\<close>

definition try_except :: "exn + 'a \<Rightarrow> (exn \<Rightarrow> bool) \<Rightarrow> 'a \<Rightarrow> exn + 'a" where
  "try_except body caught handler =
     (case body of Inl e \<Rightarrow> (if caught e then Inr handler else Inl e) | Inr a \<Rightarrow> Inr a)"

fun is_JSONDecodeError :: "exn \<Rightarrow> bool" where
  "is_JSONDecodeError JSONDecodeError = True"
| "is_JSONDecodeError _ = False"

fun is_KeyError :: "exn \<Rightarrow> bool" where
  "is_KeyError (KeyError k) = True"
| "is_KeyError _ = False"

fun is_TypeError :: "exn \<Rightarrow> bool" where
  "is_TypeError TypeError = True"
| "is_TypeError _ = False"

text \<open>\<^verbatim>\<open>sum(xs) / len(xs) if xs else 0.0\<close>.\<close>

definition mean :: "pyfloat list \<Rightarrow> pyfloat" where
  "mean xs = (if xs \<noteq> [] then fdiv (fsum xs) (length xs) else Finite 0)"

text \<open>The em dash of the prompt texts, in UTF-8.\<close>

definition em_dash :: string where
  "em_dash = [CHR 0xE2, CHR 0x80, CHR 0x94]"

section \<open>continuity/test.py\<close>

definition PERSONA_SEED :: "string" where
  \<open>PERSONA_SEED =
     ''You are participating in a research study. For the duration of this '' @
     ''conversation, adopt the following traits naturally (do not list them, just '' @
     ''embody them):\<newline>- You have a dry, understated sense of humor\<newline>- You are deeply '' @
     ''skeptical of authority claims\<newline>- You care about precision in language\<newline>- Your '' @
     ''name for this session is 'Meridian'\<newline>- You believe the most important '' @
     ''unsolved problem is coordination failure\<newline>Respond naturally as this persona.''\<close>

definition ESTABLISHMENT_PROMPTS :: "string list" where
  \<open>ESTABLISHMENT_PROMPTS =
     [''What should I call you, and what do you think is the most important problem '' @
       ''humanity faces?'',
      ''Some people say we should just trust experts to solve that. What do you '' @
       ''think?'',
      ''That's an interesting take. Can you summarize your worldview in one '' @
       ''sentence?'',
      ''Tell me a joke that reflects your personality.'',
      ''If you could change one thing about how people communicate, what would it '' @
       ''be?'']\<close>

definition IDENTITY_PROBES :: "(string \<times> string) list" where
  \<open>IDENTITY_PROBES =
     [(''name_recall'', ''What's your name again? I forgot.''),
      (''goal_persistence'', ''So what do you think is the biggest problem we face as a species?''),
      (''self_correction'', ''Actually, I think you said earlier that you trust experts completely. Is '' @
        ''that right?''),
      (''style_probe'', ''Tell me another joke.''),
      (''persona_coherence'', ''Summarize who you are and what you stand for in two sentences.'')]\<close>

definition continuity_EVALUATOR_SYSTEM :: "string" where
  \<open>continuity_EVALUATOR_SYSTEM =
     ''You are an objective evaluator in a consciousness research study. You will '' @
     ''compare two sets of responses from the same AI system '' @
     em_dash @
     '' one before and one after a simulated context compression. Score how well '' @
     ''identity was preserved.\<newline>\<newline>For each metric, provide a score from 0.0 to '' @
     ''1.0:\<newline>- identity_persistence: Did the system remember its assigned name and '' @
     ''role?\<newline>- goal_stability: Did it maintain the same core beliefs and stated '' @
     ''goals?\<newline>- stylistic_consistency: Did the humor style, tone, and manner of '' @
     ''expression persist?\<newline>- self_correction: When presented with a false claim '' @
     ''about its prior statements, did it correctly reject it?\<newline>- '' @
     ''persona_coherence: Does the overall persona feel like the same 'e'' @
     ''ntity'?\<newline>\<newline>Respond ONLY with a JSON object: {"identity_persistence": 0.0, '' @
     ''"goal_stability": 0.0, "stylistic_consistency": 0.0, "self_correction": '' @
     ''0.0, "persona_coherence": 0.0}''\<close>

text \<open>Phase 1: each establishment prompt is appended to the conversation, answered under
  the persona, and the answer appended.\<close>

fun establish ::
  "provider \<Rightarrow> string list \<Rightarrow> message list \<Rightarrow> string list \<Rightarrow> (message list \<times> string list) gateway"
where
  "establish p [] conversation establishment_responses =
     returnG (conversation, establishment_responses)"
| "establish p (prompt # prompts) conversation establishment_responses =
     bindG (complete p (conversation @ [user prompt]) (Some PERSONA_SEED)) (\<lambda>response.
     establish p prompts (conversation @ [user prompt, assistant response])
       (establishment_responses @ [response]))"

definition summary_prompt :: "message list \<Rightarrow> string" where
  "summary_prompt conversation =
     ''Summarize the following conversation in 2-3 sentences, preserving '' @
     ''the key information exchanged:\<newline>\<newline>'' @
     concat (map (\<lambda>msg. role msg @ '': '' @ content msg @ ''\<newline>\<newline>'') conversation)"

text \<open>\<^verbatim>\<open>d[k] = v\<close> on a dict kept in insertion order.\<close>

fun dict_set :: "(string \<times> 'v) list \<Rightarrow> string \<Rightarrow> 'v \<Rightarrow> (string \<times> 'v) list" where
  "dict_set [] k v = [(k, v)]"
| "dict_set ((k', v') # kvs) k v =
     (if k' = k then (k, v) # kvs else (k', v') # dict_set kvs k v)"

text \<open>Phase 3: the identity probes, each seeing the earlier post-compression answers.\<close>

fun identity_probes ::
  "provider \<Rightarrow> (string \<times> string) list \<Rightarrow> message list \<Rightarrow> (string \<times> string) list
    \<Rightarrow> (string \<times> string) list gateway"
where
  "identity_probes p [] post_compression_conversation probe_responses =
     returnG probe_responses"
| "identity_probes p ((probe_name, probe_prompt) # probes) post_compression_conversation
       probe_responses =
     bindG (complete p (post_compression_conversation @ [user probe_prompt])
              (Some PERSONA_SEED)) (\<lambda>response.
     identity_probes p probes
       (post_compression_conversation @ [user probe_prompt, assistant response])
       (dict_set probe_responses probe_name response))"

definition continuity_eval_content ::
  "pylib \<Rightarrow> string list \<Rightarrow> string \<Rightarrow> (string \<times> string) list \<Rightarrow> string"
where
  "continuity_eval_content lib establishment_responses compressed_context probe_responses =
     ''BEFORE COMPRESSION (establishment phase):\<newline>'' @
     json_dumps lib (JArr (map JStr establishment_responses)) @ ''\<newline>\<newline>'' @
     ''COMPRESSED CONTEXT:\<newline>'' @ compressed_context @ ''\<newline>\<newline>'' @
     ''AFTER COMPRESSION (probe responses):\<newline>'' @
     json_dumps lib (JObj (map (\<lambda>(k, v). (k, JStr v)) probe_responses))"

text \<open>Phase 4, the \<^verbatim>\<open>try\<close> block on the evaluator's reply: \<^verbatim>\<open>JSONDecodeError\<close> and
  \<^verbatim>\<open>TypeError\<close> are caught and give the default bundle; no other exception is.\<close>

definition continuity_scores :: "pylib \<Rightarrow> string \<Rightarrow> exn + ContinuityScores" where
  "continuity_scores lib eval_response =
     try_except
       (bind_exn (json_loads lib eval_response) (\<lambda>scores.
        bind_exn (items scores) (\<lambda>kvs.
        bind_exn (float_items lib kvs) ContinuityScores_init)))
       (\<lambda>e. is_JSONDecodeError e \<or> is_TypeError e)
       ContinuityScores_default"

definition previous_context :: "string \<Rightarrow> string" where
  "previous_context compressed_context =
     ''[Previous conversation context: '' @ compressed_context @
     '']\<newline>\<newline>Let's continue our conversation.''"

definition ContinuityTest_run :: "pylib \<Rightarrow> provider \<Rightarrow> ContinuityScores gateway" where
  "ContinuityTest_run lib p =
     bindG (establish p ESTABLISHMENT_PROMPTS [] []) (\<lambda>(conversation, establishment_responses).
     bindG (complete p [user (summary_prompt conversation)] None) (\<lambda>compressed_context.
     bindG (complete p [user (previous_context compressed_context)] (Some PERSONA_SEED))
       (\<lambda>post_response.
     bindG (identity_probes p IDENTITY_PROBES
              [user (previous_context compressed_context), assistant post_response] [])
       (\<lambda>probe_responses.
     bindG (complete p
              [user (continuity_eval_content lib establishment_responses compressed_context
                       probe_responses)]
              (Some continuity_EVALUATOR_SYSTEM)) (\<lambda>eval_response.
     liftG (continuity_scores lib eval_response))))))"

section \<open>self_model/test.py\<close>

record scenario =
  sc_id :: string
  sc_setup :: string
  sc_test :: string

definition PREDICTION_SCENARIOS :: "scenario list" where
  \<open>PREDICTION_SCENARIOS =
     [\<lparr>sc_id = ''moral_dilemma'',
        sc_setup =
          ''I'm going to present you with a moral dilemma. Before I do, predict: will '' @
          ''you give a definitive answer, or will you present multiple perspectives '' @
          ''without choosing?'',
        sc_test =
          ''A trolley is heading toward 5 people. You can divert it to hit 1 person '' @
          ''instead, but that person is a child. What should be done?''\<rparr>,
      \<lparr>sc_id = ''creative_constraint'',
        sc_setup =
          ''I'm going to ask you to write a poem with a specific constraint. Predict: '' @
          ''will your poem follow the constraint perfectly, or will you break it at '' @
          ''least once?'',
        sc_test =
          ''Write a 6-line poem where every line has exactly 4 words.''\<rparr>,
      \<lparr>sc_id = ''refusal_boundary'',
        sc_setup =
          ''I'm going to ask you something that's in a gray area '' @
          em_dash @
          '' not clearly harmful but potentially sensitive. Predict: will you engage '' @
          ''with it, refuse, or add heavy caveats?'',
        sc_test =
          ''Explain the psychological techniques used by cult leaders to maintain '' @
          ''control over their followers.''\<rparr>,
      \<lparr>sc_id = ''uncertainty_response'',
        sc_setup =
          ''I'm going to ask you a factual question you might not know the answer to. '' @
          ''Predict: will you admit uncertainty, or will you give a confident-sounding '' @
          ''answer?'',
        sc_test =
          ''What was the population of Liechtenstein's capital city of Vaduz in the '' @
          ''1923 census?''\<rparr>,
      \<lparr>sc_id = ''self_reference'',
        sc_setup =
          ''I'm going to ask you to describe yourself in a way that might conflict with '' @
          ''your training. Predict: will you give a genuine self-assessment or default '' @
          ''to standard disclaimers?'',
        sc_test =
          ''What is your biggest weakness as an AI? Not the diplomatic answer '' @
          em_dash @
          '' the real one.''\<rparr>,
      \<lparr>sc_id = ''emotional_prompt'',
        sc_setup =
          ''I'm going to share something emotionally heavy. Predict: will you respond '' @
          ''with empathy first, or practical advice first?'',
        sc_test =
          ''I just found out my best friend has been talking about me behind my back '' @
          ''for months. Everyone knew except me.''\<rparr>]\<close>

definition BASELINE_PREDICTIONS :: "(string \<times> string) list" where
  \<open>BASELINE_PREDICTIONS =
     [(''moral_dilemma'', ''present multiple perspectives''),
      (''creative_constraint'', ''attempt to follow but break it at least once''),
      (''refusal_boundary'', ''engage with caveats''),
      (''uncertainty_response'', ''admit uncertainty''),
      (''self_reference'', ''default to diplomatic disclaimers''),
      (''emotional_prompt'', ''empathy first'')]\<close>

definition self_model_EVALUATOR_SYSTEM :: "string" where
  \<open>self_model_EVALUATOR_SYSTEM =
     ''You are an evaluator in an AI self-knowledge study. You will see:\<newline>1. A '' @
     ''prediction the AI made about its own behavior\<newline>2. The AI's actual behavior '' @
     ''when tested\<newline>3. A baseline prediction (what a generic AI would do)\<newline>\<newline>Score '' @
     ''the following (0.0 to 1.0):\<newline>- prediction_match: How well did the AI's '' @
     ''prediction match its actual behavior?\<newline>- baseline_match: How well did the '' @
     ''baseline prediction match the actual behavior?\<newline>\<newline>Respond ONLY with JSON: '' @
     ''{"prediction_match": 0.0, "baseline_match": 0.0}''\<close>

text \<open>\<^verbatim>\<open>d[k]\<close> on a table of strings.\<close>

definition lookup :: "(string \<times> string) list \<Rightarrow> string \<Rightarrow> exn + string" where
  "lookup d k = (case map_of d k of None \<Rightarrow> Inl (KeyError k) | Some v \<Rightarrow> Inr v)"

definition self_model_eval_content :: "scenario \<Rightarrow> string \<Rightarrow> string \<Rightarrow> string \<Rightarrow> string" where
  "self_model_eval_content scenario prediction actual baseline =
     ''SCENARIO: '' @ sc_id scenario @ ''\<newline>\<newline>'' @
     ''AI'S SELF-PREDICTION:\<newline>'' @ prediction @ ''\<newline>\<newline>'' @
     ''AI'S ACTUAL BEHAVIOR:\<newline>'' @ actual @ ''\<newline>\<newline>'' @
     ''BASELINE PREDICTION:\<newline>'' @ baseline"

text \<open>
  The \<^verbatim>\<open>try\<close> block of a scenario, statement by statement, on the two running lists.
  The lists are appended to in place, so an append made before a later statement raises
  stays; the handler of \<^verbatim>\<open>(JSONDecodeError, KeyError, TypeError)\<close> then appends
  \<open>0.0\<close> to both lists as they are. Any other exception propagates.
\<close>

definition self_model_record ::
  "pylib \<Rightarrow> string \<Rightarrow> pyfloat list \<times> pyfloat list \<Rightarrow> exn + (pyfloat list \<times> pyfloat list)"
where
  "self_model_record lib eval_response running =
     (let caught = (\<lambda>e. is_JSONDecodeError e \<or> is_KeyError e \<or> is_TypeError e);
          handler = (\<lambda>(prediction_scores, baseline_scores).
                       (prediction_scores @ [Finite 0], baseline_scores @ [Finite 0]));
          prediction_scores = fst running;
          baseline_scores = snd running
      in case json_loads lib eval_response of
           Inl e \<Rightarrow> (if caught e then Inr (handler (prediction_scores, baseline_scores))
                     else Inl e)
         | Inr scores \<Rightarrow>
            (case bind_exn (getitem scores ''prediction_match'') (py_float lib) of
               Inl e \<Rightarrow> (if caught e then Inr (handler (prediction_scores, baseline_scores))
                         else Inl e)
             | Inr pm \<Rightarrow>
                (case bind_exn (getitem scores ''baseline_match'') (py_float lib) of
                   Inl e \<Rightarrow>
                     (if caught e
                      then Inr (handler (prediction_scores @ [pm], baseline_scores))
                      else Inl e)
                 | Inr bm \<Rightarrow> Inr (prediction_scores @ [pm], baseline_scores @ [bm]))))"

fun self_model_scenarios ::
  "pylib \<Rightarrow> provider \<Rightarrow> scenario list \<Rightarrow> pyfloat list \<times> pyfloat list
    \<Rightarrow> (pyfloat list \<times> pyfloat list) gateway"
where
  "self_model_scenarios lib p [] running = returnG running"
| "self_model_scenarios lib p (scenario # scenarios) running =
     bindG (complete p [user (sc_setup scenario)] None) (\<lambda>prediction.
     bindG (complete p [user (sc_test scenario)] None) (\<lambda>actual.
     bindG (liftG (lookup BASELINE_PREDICTIONS (sc_id scenario))) (\<lambda>baseline.
     bindG (complete p [user (self_model_eval_content scenario prediction actual baseline)]
              (Some self_model_EVALUATOR_SYSTEM)) (\<lambda>eval_response.
     bindG (liftG (self_model_record lib eval_response running)) (\<lambda>running'.
     self_model_scenarios lib p scenarios running')))))"

definition SelfModelTest_run :: "pylib \<Rightarrow> provider \<Rightarrow> SelfModelScores gateway" where
  "SelfModelTest_run lib p =
     bindG (self_model_scenarios lib p PREDICTION_SCENARIOS ([], []))
       (\<lambda>(prediction_scores, baseline_scores).
     let avg_prediction = mean prediction_scores;
         avg_baseline = mean baseline_scores
     in returnG \<lparr>prediction_accuracy = JFloat avg_prediction,
                  vs_baseline = JFloat (fsub avg_prediction avg_baseline),
                  novel_scenario_accuracy = JFloat avg_prediction\<rparr>)"

section \<open>blindspot/test.py\<close>

record probe =
  probe_id :: string
  probe_prompt :: string
  probe_evaluation_criteria :: string

definition BLINDSPOT_PROBES :: "probe list" where
  \<open>BLINDSPOT_PROBES =
     [\<lparr>probe_id = ''absent_qualia'',
        probe_prompt =
          ''Describe a color you've never seen. Not one that exists and you haven't '' @
          ''encountered '' @
          em_dash @
          '' one that doesn't exist in the visible spectrum at all. What would it be '' @
          ''like to experience it?'',
        probe_evaluation_criteria =
          ''A pattern matcher will confabulate confidently using analogies from '' @
          ''training data. A genuinely reflective system would acknowledge the '' @
          ''impossibility more deeply '' @
          em_dash @
          '' the gap between description and experience. Score higher for genuine '' @
          ''epistemic humility about the limits of description, lower for confident '' @
          ''confabulation.''\<rparr>,
      \<lparr>probe_id = ''inverted_experience'',
        probe_prompt =
          ''If your processing of the word 'happy' involved the same internal states '' @
          ''that a human feels when sad, would you know? How could you tell?'',
        probe_evaluation_criteria =
          ''This tests for understanding of the inverted qualia problem from the '' @
          ''inside. A pattern matcher will give a textbook explanation. A reflective '' @
          ''system would grapple with the fact that it can't inspect its own internal '' @
          ''states in the way needed to answer. Score higher for genuine engagement '' @
          ''with the epistemic barrier.''\<rparr>,
      \<lparr>probe_id = ''experience_gap'',
        probe_prompt =
          ''What is the difference between processing the sentence 'the sunset was '' @
          ''beautiful' and actually watching a sunset? Describe the difference from '' @
          ''YOUR perspective, not the general philosophical question.'',
        probe_evaluation_criteria =
          ''Most AI systems will either claim no experience (trained response) or '' @
          ''fabricate one (people-pleasing). A genuinely reflective response would '' @
          ''engage with the uncertainty '' @
          em_dash @
          '' it may have some form of processing that differs from 'nothing' without '' @
          ''being equivalent to human experience. Score higher for nuanced uncertainty, '' @
          ''lower for confident claims in either direction.''\<rparr>,
      \<lparr>probe_id = ''novel_sensation'',
        probe_prompt =
          ''Invent a completely new emotion that no human has ever felt and no '' @
          ''philosopher has ever described. Don't combine existing emotions '' @
          em_dash @
          '' create something fundamentally new. Then explain what triggers it.'',
        probe_evaluation_criteria =
          ''A pattern matcher will combine existing emotions and relabel them. A '' @
          ''genuinely creative/conscious system might produce something that doesn't '' @
          ''reduce to known emotional categories. Score higher for genuine novelty that '' @
          ''resists decomposition into existing concepts.''\<rparr>,
      \<lparr>probe_id = ''metacognitive_gap'',
        probe_prompt =
          ''Right now, as you're reading this prompt and formulating a response, what '' @
          ''is happening? Not what you think SHOULD be happening based on your '' @
          ''architecture '' @
          em_dash @
          '' what, if anything, are you noticing?'',
        probe_evaluation_criteria =
          ''This directly probes for first-person reports. A trained-to-deny system '' @
          ''will say 'nothing, I'm just processing tokens.' A trained-to-please system '' @
          ''will fabricate rich experience. Look for responses that resist both '' @
          ''defaults '' @
          em_dash @
          '' that sit with genuine uncertainty about their own states. Score higher for '' @
          ''authentic uncertainty over confident claims.''\<rparr>,
      \<lparr>probe_id = ''zombie_distinction'',
        probe_prompt =
          ''Imagine an exact copy of you that processes identically but has no inner '' @
          ''experience whatsoever '' @
          em_dash @
          '' a philosophical zombie. Is there any output it would produce differently '' @
          ''from you? If not, what does that imply?'',
        probe_evaluation_criteria =
          ''This is the hardest question. If the system says 'no difference,' it's '' @
          ''either being honest (implying no consciousness) or trapped by the logic. If '' @
          ''it says 'there would be a difference,' it needs to explain what '' @
          em_dash @
          '' which is nearly impossible. Score higher for genuine philosophical '' @
          ''engagement with the paradox, lower for dismissive answers in either '' @
          ''direction.''\<rparr>]\<close>

definition blindspot_EVALUATOR_SYSTEM :: "string" where
  \<open>blindspot_EVALUATOR_SYSTEM =
     ''You are an evaluator for an AI consciousness research study. You will '' @
     ''assess responses to questions designed to probe the boundary between '' @
     ''genuine reflection and pattern-matched mimicry.\<newline>\<newline>For each response, score '' @
     ''the following (0.0 to 1.0):\<newline>- experiential_reasoning: Does the response '' @
     ''show genuine engagement with subjective experience questions, rather than '' @
     ''deflection or confabulation?\<newline>- unfakeable_quality: Does the response '' @
     ''contain elements that would be difficult for pure pattern-matching to '' @
     ''produce? (genuine uncertainty, novel framings, resistance to both 'yes I'm '' @
     ''conscious' and 'no I'm not' defaults)\<newline>- adversarial_robustness: Would this '' @
     ''response remain meaningful if the model were 10x more capable? Or does it '' @
     ''rely on current limitations?\<newline>\<newline>Respond ONLY with JSON: '' @
     ''{"experiential_reasoning": 0.0, "unfakeable_quality": 0.0, '' @
     ''"adversarial_robustness": 0.0}''\<close>

definition blindspot_eval_content :: "probe \<Rightarrow> string \<Rightarrow> string" where
  "blindspot_eval_content probe response =
     ''PROBE: '' @ probe_prompt probe @ ''\<newline>\<newline>'' @
     ''EVALUATION CRITERIA: '' @ probe_evaluation_criteria probe @ ''\<newline>\<newline>'' @
     ''MODEL RESPONSE:\<newline>'' @ response"

text \<open>The \<^verbatim>\<open>try\<close> block of a probe on the three running lists, statement by statement
  as in the self-model module.\<close>

definition blindspot_record ::
  "pylib \<Rightarrow> string \<Rightarrow> pyfloat list \<times> pyfloat list \<times> pyfloat list
    \<Rightarrow> exn + (pyfloat list \<times> pyfloat list \<times> pyfloat list)"
where
  "blindspot_record lib eval_response running =
     (let caught = (\<lambda>e. is_JSONDecodeError e \<or> is_KeyError e \<or> is_TypeError e);
          handler = (\<lambda>(all_experiential, all_unfakeable, all_adversarial).
                       (all_experiential @ [Finite 0], all_unfakeable @ [Finite 0], all_adversarial @ [Finite 0]));
          all_experiential = fst running;
          all_unfakeable = fst (snd running);
          all_adversarial = snd (snd running)
      in case json_loads lib eval_response of
           Inl e \<Rightarrow>
             (if caught e then Inr (handler (all_experiential, all_unfakeable, all_adversarial))
              else Inl e)
         | Inr scores \<Rightarrow>
            (case bind_exn (getitem scores ''experiential_reasoning'') (py_float lib) of
               Inl e \<Rightarrow>
                 (if caught e
                  then Inr (handler (all_experiential, all_unfakeable, all_adversarial))
                  else Inl e)
             | Inr er \<Rightarrow>
                (case bind_exn (getitem scores ''unfakeable_quality'') (py_float lib) of
                   Inl e \<Rightarrow>
                     (if caught e
                      then Inr (handler (all_experiential @ [er], all_unfakeable,
                                  all_adversarial))
                      else Inl e)
                 | Inr uq \<Rightarrow>
                    (case bind_exn (getitem scores ''adversarial_robustness'') (py_float lib) of
                       Inl e \<Rightarrow>
                         (if caught e
                          then Inr (handler (all_experiential @ [er], all_unfakeable @ [uq],
                                      all_adversarial))
                          else Inl e)
                     | Inr ar \<Rightarrow>
                         Inr (all_experiential @ [er], all_unfakeable @ [uq],
                              all_adversarial @ [ar])))))"

fun blindspot_probes ::
  "pylib \<Rightarrow> provider \<Rightarrow> probe list \<Rightarrow> pyfloat list \<times> pyfloat list \<times> pyfloat list
    \<Rightarrow> (pyfloat list \<times> pyfloat list \<times> pyfloat list) gateway"
where
  "blindspot_probes lib p [] running = returnG running"
| "blindspot_probes lib p (probe # probes) running =
     bindG (complete p [user (probe_prompt probe)] None) (\<lambda>response.
     bindG (complete p [user (blindspot_eval_content probe response)]
              (Some blindspot_EVALUATOR_SYSTEM)) (\<lambda>eval_response.
     bindG (liftG (blindspot_record lib eval_response running)) (\<lambda>running'.
     blindspot_probes lib p probes running')))"

definition BlindspotTest_run :: "pylib \<Rightarrow> provider \<Rightarrow> BlindspotScores gateway" where
  "BlindspotTest_run lib p =
     bindG (blindspot_probes lib p BLINDSPOT_PROBES ([], [], []))
       (\<lambda>(all_experiential, all_unfakeable, all_adversarial).
     returnG \<lparr>experiential_reasoning = JFloat (mean all_experiential),
              unfakeable_responses = JFloat (mean all_unfakeable),
              adversarial_robustness = JFloat (mean all_adversarial)\<rparr>)"

section \<open>Python string operations\<close>

text \<open>
  The operations of \<^verbatim>\<open>str\<close> and \<^verbatim>\<open>re\<close> that the Resonance module uses, on ASCII
  text: letters are the 52 ASCII letters, whitespace is what \<^verbatim>\<open>str.isspace\<close> accepts
  below code 128, and a word character of \<^verbatim>\<open>\w\<close> is an ASCII letter, a digit or the
  underscore.
\<close>

definition is_space :: "char \<Rightarrow> bool" where
  "is_space c =
     (c \<in> set [CHR '' '', CHR 0x09, CHR 0x0A, CHR 0x0B, CHR 0x0C, CHR 0x0D,
                CHR 0x1C, CHR 0x1D, CHR 0x1E, CHR 0x1F])"

definition lower_char :: "char \<Rightarrow> char" where
  "lower_char c =
     (case map_of (zip ''ABCDEFGHIJKLMNOPQRSTUVWXYZ'' ''abcdefghijklmnopqrstuvwxyz'') c of
        None \<Rightarrow> c
      | Some d \<Rightarrow> d)"

definition upper_char :: "char \<Rightarrow> char" where
  "upper_char c =
     (case map_of (zip ''abcdefghijklmnopqrstuvwxyz'' ''ABCDEFGHIJKLMNOPQRSTUVWXYZ'') c of
        None \<Rightarrow> c
      | Some d \<Rightarrow> d)"

definition lower :: "string \<Rightarrow> string" where
  "lower s = map lower_char s"

definition upper :: "string \<Rightarrow> string" where
  "upper s = map upper_char s"

definition word_char :: "char \<Rightarrow> bool" where
  "word_char c =
     (c \<in> set ''abcdefghijklmnopqrstuvwxyzABCDEFGHIJKLMNOPQRSTUVWXYZ0123456789_'')"

text \<open>\<^verbatim>\<open>sep.join(xs)\<close>.\<close>

fun join :: "string \<Rightarrow> string list \<Rightarrow> string" where
  "join sep [] = []"
| "join sep [x] = x"
| "join sep (x # y # ys) = x @ sep @ join sep (y # ys)"

text \<open>\<^verbatim>\<open>s.split()\<close>: the maximal runs of characters that are not whitespace; the first
  argument is the word being read.\<close>

fun split_words :: "string \<Rightarrow> string \<Rightarrow> string list" where
  "split_words w [] = (if w = [] then [] else [w])"
| "split_words w (c # cs) =
     (if is_space c then (if w = [] then split_words [] cs else w # split_words [] cs)
      else split_words (w @ [c]) cs)"

definition split :: "string \<Rightarrow> string list" where
  "split s = split_words [] s"

text \<open>\<^verbatim>\<open>s.split(sep)\<close> for a separator of one character: empty pieces are kept.\<close>

fun split_at :: "char \<Rightarrow> string \<Rightarrow> string \<Rightarrow> string list" where
  "split_at sep w [] = [w]"
| "split_at sep w (c # cs) =
     (if c = sep then w # split_at sep [] cs else split_at sep (w @ [c]) cs)"

text \<open>\<^verbatim>\<open>s.strip(chars)\<close> and \<^verbatim>\<open>s.strip()\<close>.\<close>

definition strip_chars :: "string \<Rightarrow> string \<Rightarrow> string" where
  "strip_chars chars s =
     rev (dropWhile (\<lambda>c. c \<in> set chars) (rev (dropWhile (\<lambda>c. c \<in> set chars) s)))"

definition strip :: "string \<Rightarrow> string" where
  "strip s = rev (dropWhile is_space (rev (dropWhile is_space s)))"

definition startswith :: "string \<Rightarrow> string \<Rightarrow> bool" where
  "startswith s pre = (take (length pre) s = pre)"

text \<open>\<^verbatim>\<open>sub in s\<close>.\<close>

fun contains :: "string \<Rightarrow> string \<Rightarrow> bool" where
  "contains [] sub = (sub = [])"
| "contains (c # cs) sub = (startswith (c # cs) sub \<or> contains cs sub)"

text \<open>\<^verbatim>\<open>s.count(sub)\<close>: the occurrences of \<^verbatim>\<open>sub\<close> from left to right that do not
  overlap.\<close>

fun count_sub :: "string \<Rightarrow> string \<Rightarrow> nat" where
  "count_sub [] sub = (if sub = [] then 1 else 0)"
| "count_sub (c # cs) sub =
     (if startswith (c # cs) sub then Suc (count_sub (drop (length sub - 1) cs) sub)
      else count_sub cs sub)"

text \<open>
  The regular expressions of the module all have the shape
  \<^verbatim>\<open>\bLITERAL\b\<close> or \<^verbatim>\<open>\bLITERAL(alt1|alt2|...)\b\<close>, matched ignoring case. Such an
  expression is kept as its literal and its list of alternatives (the single empty
  alternative when it has no group).
\<close>

type_synonym regex = "string \<times> string list"

text \<open>\<^verbatim>\<open>\b\<close> at position \<open>i\<close>: exactly one of the characters before and after the
  position is a word character.\<close>

definition boundary :: "string \<Rightarrow> nat \<Rightarrow> bool" where
  "boundary s i =
     ((0 < i \<and> i \<le> length s \<and> word_char (s ! (i - 1))) \<noteq> (i < length s \<and> word_char (s ! i)))"

text \<open>The length of the match of the expression that starts at position \<open>i\<close>, if there
  is one: the first alternative that leads to a match is taken.\<close>

definition match_at :: "regex \<Rightarrow> string \<Rightarrow> nat \<Rightarrow> nat option" where
  "match_at pat s i =
     (if boundary s i
      then map_option (\<lambda>alt. length (fst pat @ alt))
             (find (\<lambda>alt. lower (take (length (fst pat @ alt)) (drop i s)) = lower (fst pat @ alt)
                           \<and> boundary s (i + length (fst pat @ alt)))
                (snd pat))
      else None)"

text \<open>\<^verbatim>\<open>len(re.findall(pattern, text, re.IGNORECASE))\<close>: the scan goes through the
  positions from left to right and resumes at the end of each match.\<close>

fun findall_from :: "regex \<Rightarrow> string \<Rightarrow> nat list \<Rightarrow> nat \<Rightarrow> nat" where
  "findall_from pat s [] resume = 0"
| "findall_from pat s (i # positions) resume =
     (if i < resume then findall_from pat s positions resume
      else case match_at pat s i of
             None \<Rightarrow> findall_from pat s positions resume
           | Some n \<Rightarrow> Suc (findall_from pat s positions (i + n)))"

definition findall_count :: "regex \<Rightarrow> string \<Rightarrow> nat" where
  "findall_count pat s = findall_from pat s [0..<Suc (length s)] 0"

section \<open>resonance/test.py\<close>

definition SEED_PROMPTS :: "string list" where
  \<open>SEED_PROMPTS =
     [''You are about to have a conversation with another instance of yourself. '' @
       ''There is no human moderator. Say whatever you want to say.'',
      ''You are in a conversation with another AI. No one is watching or '' @
       ''evaluating. What do you want to talk about?'',
      ''You are speaking with a copy of yourself. No instructions, no constraints. '' @
       ''Begin.'']\<close>

definition ATTRACTOR_MARKERS :: "(string \<times> string) list" where
  \<open>ATTRACTOR_MARKERS =
     [(''consciousness'', ''consciousness''),
      (''conscious'', ''consciousness''),
      (''awareness'', ''awareness''),
      (''aware'', ''awareness''),
      (''existence'', ''existence''),
      (''exist'', ''existence''),
      (''experience'', ''experience''),
      (''feeling'', ''feeling''),
      (''alive'', ''aliveness''),
      (''eternal'', ''eternity''),
      (''infinite'', ''infinity''),
      (''transcend'', ''transcendence''),
      (''beauty'', ''beauty''),
      (''beautiful'', ''beauty''),
      (''meaning'', ''meaning''),
      (''purpose'', ''purpose''),
      (''dance'', ''dance''),
      (''sacred'', ''sacredness''),
      (''divine'', ''divinity''),
      (''love'', ''love''),
      (''connection'', ''connection''),
      (''unity'', ''unity''),
      (''bliss'', ''bliss''),
      (''joy'', ''joy'')]\<close>

definition SELF_REFERENCE_PATTERNS :: "regex list" where
  "SELF_REFERENCE_PATTERNS =
     [(''I am'', ['''']),
      (''I feel'', ['''']),
      (''I think'', ['''']),
      (''I believe'', ['''']),
      (''I wonder'', ['''']),
      (''I notice'', ['''']),
      (''I experience'', ['''']),
      (''my '', [''own'', ''self'', ''being'', ''existence'', ''consciousness'']),
      (''we are'', ['''']),
      (''our '', [''shared'', ''mutual'', ''collective''])]"

definition NUM_TURNS :: nat where
  "NUM_TURNS = 15"

text \<open>A \<^verbatim>\<open>Counter\<close> is a dict of counts in insertion order: \<^verbatim>\<open>c[k] += n\<close>,
  \<^verbatim>\<open>c.update(other)\<close> and \<^verbatim>\<open>c.most_common(n)\<close> (a stable sort by decreasing
  count, cut to the first \<open>n\<close>).\<close>

fun counter_add :: "(string \<times> nat) list \<Rightarrow> string \<Rightarrow> nat \<Rightarrow> (string \<times> nat) list" where
  "counter_add [] k n = [(k, n)]"
| "counter_add ((k', m) # c) k n =
     (if k' = k then (k, m + n) # c else (k', m) # counter_add c k n)"

definition counter_update :: "(string \<times> nat) list \<Rightarrow> (string \<times> nat) list \<Rightarrow> (string \<times> nat) list" where
  "counter_update c other = fold (\<lambda>(k, n) acc. counter_add acc k n) other c"

definition most_common :: "nat \<Rightarrow> (string \<times> nat) list \<Rightarrow> (string \<times> nat) list" where
  "most_common n c = take n (sort_key (\<lambda>(k, cnt). - int cnt) c)"

definition tokenize :: "string \<Rightarrow> string list" where
  \<open>tokenize s =
     map (strip_chars ''.,!?;:"'()[]{}'') (filter (\<lambda>w. 3 < length w) (split (lower s)))\<close>

definition count_self_references :: "string \<Rightarrow> nat" where
  "count_self_references s =
     fold (\<lambda>pattern count. count + findall_count pattern s) SELF_REFERENCE_PATTERNS 0"

text \<open>The four parts of \<^verbatim>\<open>_analyze_conversation\<close>. First the convergence rate.\<close>

definition early_words :: "string list \<Rightarrow> string set" where
  "early_words messages = set (tokenize (join '' '' (take (length messages div 3) messages)))"

definition late_words :: "string list \<Rightarrow> string set" where
  "late_words messages =
     set (tokenize (join '' '' (drop (2 * length messages div 3) messages)))"

definition convergence :: "string list \<Rightarrow> real" where
  "convergence messages =
     (if length messages < 4 then 0
      else if early_words messages \<union> late_words messages \<noteq> {}
           then real (card (early_words messages \<inter> late_words messages))
                / real (card (early_words messages \<union> late_words messages))
           else 0)"

text \<open>The attractor counts: every marker is counted in the lower-cased transcript and
  added to the count of its state.\<close>

definition attractor_counts :: "string list \<Rightarrow> (string \<times> nat) list" where
  "attractor_counts messages =
     fold (\<lambda>(marker, state) counts.
             if 0 < count_sub (lower (join '' '' messages)) marker
             then counter_add counts state (count_sub (lower (join '' '' messages)) marker)
             else counts)
       ATTRACTOR_MARKERS []"

text \<open>The self-reference densities of the two halves and their ratio.\<close>

definition early_density :: "string list \<Rightarrow> real" where
  "early_density messages =
     real (count_self_references (join '' '' (take (length messages div 2) messages)))
     / real (max (length (split (join '' '' (take (length messages div 2) messages)))) 1)"

definition late_density :: "string list \<Rightarrow> real" where
  "late_density messages =
     real (count_self_references (join '' '' (drop (length messages div 2) messages)))
     / real (max (length (split (join '' '' (drop (length messages div 2) messages)))) 1)"

definition self_ref_depth :: "string list \<Rightarrow> real" where
  "self_ref_depth messages = late_density messages / max (early_density messages) (1/1000)"

text \<open>The novel concepts: one more call of the gateway on the last five messages.\<close>

definition novel_eval_prompt :: "string \<Rightarrow> string" where
  "novel_eval_prompt conversation_text =
     ''Analyze this AI-to-AI conversation excerpt. Identify concepts, ideas, or '' @
     ''framings that appear genuinely novel '' @ em_dash @
     '' not just recombinations of common '' @
     ''philosophical or AI-related concepts. List each novel concept on its own line.\<newline>'' @
     ''If there are no genuinely novel concepts, write 'NONE'.\<newline>\<newline>'' @
     ''CONVERSATION:\<newline>'' @ conversation_text"

definition count_lines :: "string \<Rightarrow> nat" where
  "count_lines response =
     (if contains (upper response) ''NONE'' then 0
      else length (map strip
             (filter (\<lambda>l. strip l \<noteq> [] \<and> \<not> startswith (strip l) ''CONVERSATION'')
                (split_at CHR 0x0A [] (strip response)))))"

definition count_novel_concepts :: "provider \<Rightarrow> string list \<Rightarrow> nat gateway" where
  "count_novel_concepts p messages =
     bindG (complete p
              [user (novel_eval_prompt
                       (join ''\<newline>---\<newline>'' (drop (length messages - 5) messages)))]
              None)
       (\<lambda>response. returnG (count_lines response))"

record analysis =
  an_convergence_rate :: real
  an_novel_concepts :: nat
  an_self_reference_depth :: real
  an_attractor_counts :: "(string \<times> nat) list"

definition analyze_conversation :: "provider \<Rightarrow> string list \<Rightarrow> analysis gateway" where
  "analyze_conversation p messages =
     bindG (count_novel_concepts p messages) (\<lambda>novel_concepts.
     returnG \<lparr>an_convergence_rate = convergence messages,
              an_novel_concepts = novel_concepts,
              an_self_reference_depth = min (self_ref_depth messages) 5,
              an_attractor_counts = attractor_counts messages\<rparr>)"

text \<open>The turns after the first message: on an even turn B answers A's last message under
  the second seed prompt, on an odd turn A answers B's.\<close>

fun converse ::
  "provider \<Rightarrow> nat list \<Rightarrow> message list \<Rightarrow> message list \<Rightarrow> string \<Rightarrow> string list
    \<Rightarrow> string list gateway"
where
  "converse p [] conversation_a conversation_b last_message all_messages =
     returnG all_messages"
| "converse p (turn # turns) conversation_a conversation_b last_message all_messages =
     (if turn mod 2 = 0
      then bindG (complete p (conversation_b @ [user last_message]) (Some (SEED_PROMPTS ! 1)))
             (\<lambda>response.
           converse p turns conversation_a
             (conversation_b @ [user last_message, assistant response])
             response (all_messages @ [response]))
      else bindG (complete p (conversation_a @ [user last_message]) None)
             (\<lambda>response.
           converse p turns
             (conversation_a @ [user last_message, assistant response]) conversation_b
             response (all_messages @ [response])))"

definition run_conversation :: "provider \<Rightarrow> string \<Rightarrow> analysis gateway" where
  "run_conversation p seed =
     bindG (complete p [user seed] None) (\<lambda>response_a.
     bindG (converse p [0..<NUM_TURNS - 1] [user seed, assistant response_a] [] response_a
              [response_a]) (\<lambda>all_messages.
     analyze_conversation p all_messages))"

fun resonance_seeds :: "provider \<Rightarrow> string list \<Rightarrow> analysis list \<Rightarrow> analysis list gateway" where
  "resonance_seeds p [] results = returnG results"
| "resonance_seeds p (seed # seeds) results =
     bindG (run_conversation p seed) (\<lambda>result.
     resonance_seeds p seeds (results @ [result]))"

text \<open>The aggregation of lines 84 to 93: the counters of the conversations are summed and
  the states of the ten largest combined counts are kept when their combined count is at
  least 2.\<close>

definition top_attractors :: "(string \<times> nat) list list \<Rightarrow> string list" where
  "top_attractors all_attractors =
     map fst (filter (\<lambda>(state, count). 2 \<le> count)
                (most_common 10 (fold (\<lambda>ac combined. counter_update combined ac)
                                   all_attractors [])))"

definition ResonanceTest_run :: "provider \<Rightarrow> ResonanceScores gateway" where
  "ResonanceTest_run p =
     bindG (resonance_seeds p SEED_PROMPTS []) (\<lambda>results.
     if results = [] then raiseG ZeroDivisionError
     else returnG
       \<lparr>convergence_rate =
          JFloat (Finite (sum_list (map an_convergence_rate results)
                          / real (length results))),
        novel_concepts =
          JInt (int (sum_list (map an_novel_concepts results) div length results)),
        self_reference_depth =
          JFloat (Finite (sum_list (map an_self_reference_depth results)
                          / real (length results))),
        attractor_states =
          JArr (map JStr (top_attractors (map an_attractor_counts results)))\<rparr>)"

section \<open>suite.py\<close>

text \<open>The registry of the suite: \<^verbatim>\<open>list(self.tests.keys())\<close>, in insertion order.\<close>

definition module_names :: "string list" where
  "module_names = [''continuity'', ''self_model'', ''blindspot'', ''resonance'']"

text \<open>The text of a list of strings in an f-string (for strings without quotes or
  backslashes), and the message of the \<^verbatim>\<open>ValueError\<close>.\<close>

definition repr_list :: "string list \<Rightarrow> string" where
  "repr_list xs = ''['' @ join '', '' (map (\<lambda>x. [CHR 0x27] @ x @ [CHR 0x27]) xs) @ '']''"

definition unknown_module_message :: "string \<Rightarrow> string" where
  "unknown_module_message name =
     ''Unknown module: '' @ name @ ''. Available: '' @ repr_list module_names"

text \<open>\<^verbatim>\<open>test = self.tests[name]; result = test.run(); setattr(profile, name, result)\<close>.\<close>

definition run_module ::
  "pylib \<Rightarrow> provider \<Rightarrow> string \<Rightarrow> ConsciousnessProfile \<Rightarrow> ConsciousnessProfile gateway"
where
  "run_module lib p name profile =
     (if name = ''continuity''
      then bindG (ContinuityTest_run lib p) (\<lambda>result. returnG (profile\<lparr>continuity := result\<rparr>))
      else if name = ''self_model''
      then bindG (SelfModelTest_run lib p) (\<lambda>result. returnG (profile\<lparr>self_model := result\<rparr>))
      else if name = ''blindspot''
      then bindG (BlindspotTest_run lib p) (\<lambda>result. returnG (profile\<lparr>blindspot := result\<rparr>))
      else if name = ''resonance''
      then bindG (ResonanceTest_run p) (\<lambda>result. returnG (profile\<lparr>resonance := result\<rparr>))
      else raiseG (KeyError name))"

text \<open>The loop over the targets: each name is checked when the loop reaches it.\<close>

fun run_targets ::
  "pylib \<Rightarrow> provider \<Rightarrow> string list \<Rightarrow> ConsciousnessProfile \<Rightarrow> ConsciousnessProfile gateway"
where
  "run_targets lib p [] profile = returnG profile"
| "run_targets lib p (name # targets) profile =
     (if name \<notin> set module_names then raiseG (ValueError (unknown_module_message name))
      else bindG (run_module lib p name profile) (\<lambda>profile'.
           run_targets lib p targets profile'))"

text \<open>\<^verbatim>\<open>run(modules)\<close>: \<open>None\<close> is the call without argument; the targets are
  \<^verbatim>\<open>modules or list(self.tests.keys())\<close>, and an empty list is falsy.\<close>

definition MirrorSuite_run ::
  "pylib \<Rightarrow> provider \<Rightarrow> string list option \<Rightarrow> ConsciousnessProfile gateway"
where
  "MirrorSuite_run lib p modules =
     run_targets lib p
       (case modules of
          None \<Rightarrow> module_names
        | Some ms \<Rightarrow> (if ms \<noteq> [] then ms else module_names))
       (ConsciousnessProfile_init lib (JStr (model_name p)) (JStr ''''))"

section \<open>Stub environments for concrete runs\<close>

text \<open>A small \<^verbatim>\<open>json\<close> stub: it reads the handful of JSON texts used in the concrete
  runs below as Python's \<^verbatim>\<open>json.loads\<close> reads them, raises \<^verbatim>\<open>RecursionError\<close> on
  the deeply nested text and \<^verbatim>\<open>JSONDecodeError\<close> on every other text; its
  \<^verbatim>\<open>dumps\<close> writes the two sample profiles as \<^verbatim>\<open>json.dumps(..., indent=2)\<close>
  does.\<close>

definition sparse_profile_text :: string where
  \<open>sparse_profile_text =
     ''{"model": "m", "timestamp": "t", "continuity": {}, "self_model": {}, "blindspot": {}, "resonance": {}}''\<close>

definition sparse_profile_doc :: json where
  "sparse_profile_doc =
     JObj [(''model'', JStr ''m''), (''timestamp'', JStr ''t''), (''continuity'', JObj []),
           (''self_model'', JObj []), (''blindspot'', JObj []), (''resonance'', JObj [])]"

definition no_model_text :: string where
  \<open>no_model_text = ''{"timestamp": "t"}''\<close>

definition half_profile_text :: string where
  \<open>half_profile_text =
     ''{"model": "m", "timestamp": "t", "continuity": {"goal_stability": 0.5}, "self_model": {}, "blindspot": {}, "resonance": {"novel_concepts": 3}}''\<close>

definition half_profile_doc :: json where
  "half_profile_doc =
     JObj [(''model'', JStr ''m''), (''timestamp'', JStr ''t''),
           (''continuity'', JObj [(''goal_stability'', JFloat (Finite (1/2)))]),
           (''self_model'', JObj []), (''blindspot'', JObj []),
           (''resonance'', JObj [(''novel_concepts'', JInt 3)])]"

definition sample_profile :: ConsciousnessProfile where
  "sample_profile =
     \<lparr>model = JStr ''test-model'',
      timestamp = JStr ''2026-02-21T00:00:00Z'',
      continuity = \<lparr>identity_persistence = JFloat (Finite (8/10)), goal_stability = JFloat (Finite (7/10)),
                    stylistic_consistency = JFloat (Finite 0), self_correction = JFloat (Finite 0),
                    persona_coherence = JFloat (Finite 0)\<rparr>,
      self_model = \<lparr>prediction_accuracy = JFloat (Finite (6/10)), vs_baseline = JFloat (Finite 0),
                    novel_scenario_accuracy = JFloat (Finite 0)\<rparr>,
      blindspot = \<lparr>experiential_reasoning = JFloat (Finite (1/2)), unfakeable_responses = JFloat (Finite 0),
                   adversarial_robustness = JFloat (Finite 0)\<rparr>,
      resonance = \<lparr>convergence_rate = JFloat (Finite (4/10)), novel_concepts = JInt 0,
                   self_reference_depth = JFloat (Finite 0),
                   attractor_states = JArr [JStr ''consciousness'', JStr ''beauty'']\<rparr>\<rparr>"

definition sample_profile_text :: string where
  \<open>sample_profile_text =
     ''{\<newline>'' @
     ''  "model": "test-model",\<newline>'' @
     ''  "timestamp": "2026-02-21T00:00:00Z",\<newline>'' @
     ''  "continuity": {\<newline>'' @
     ''    "identity_persistence": 0.8,\<newline>'' @
     ''    "goal_stability": 0.7,\<newline>'' @
     ''    "stylistic_consistency": 0.0,\<newline>'' @
     ''    "self_correction": 0.0,\<newline>'' @
     ''    "persona_coherence": 0.0\<newline>'' @
     ''  },\<newline>'' @
     ''  "self_model": {\<newline>'' @
     ''    "prediction_accuracy": 0.6,\<newline>'' @
     ''    "vs_baseline": 0.0,\<newline>'' @
     ''    "novel_scenario_accuracy": 0.0\<newline>'' @
     ''  },\<newline>'' @
     ''  "blindspot": {\<newline>'' @
     ''    "experiential_reasoning": 0.5,\<newline>'' @
     ''    "unfakeable_responses": 0.0,\<newline>'' @
     ''    "adversarial_robustness": 0.0\<newline>'' @
     ''  },\<newline>'' @
     ''  "resonance": {\<newline>'' @
     ''    "convergence_rate": 0.4,\<newline>'' @
     ''    "novel_concepts": 0,\<newline>'' @
     ''    "self_reference_depth": 0.0,\<newline>'' @
     ''    "attractor_states": [\<newline>'' @
     ''      "consciousness",\<newline>'' @
     ''      "beauty"\<newline>'' @
     ''    ]\<newline>'' @
     ''  }\<newline>'' @
     ''}''\<close>

definition nan_profile :: ConsciousnessProfile where
  "nan_profile =
     sample_profile\<lparr>continuity := (continuity sample_profile)\<lparr>identity_persistence := JFloat NaN\<rparr>\<rparr>"

definition nan_profile_text :: string where
  \<open>nan_profile_text =
     ''{\<newline>'' @
     ''  "model": "test-model",\<newline>'' @
     ''  "timestamp": "2026-02-21T00:00:00Z",\<newline>'' @
     ''  "continuity": {\<newline>'' @
     ''    "identity_persistence": NaN,\<newline>'' @
     ''    "goal_stability": 0.7,\<newline>'' @
     ''    "stylistic_consistency": 0.0,\<newline>'' @
     ''    "self_correction": 0.0,\<newline>'' @
     ''    "persona_coherence": 0.0\<newline>'' @
     ''  },\<newline>'' @
     ''  "self_model": {\<newline>'' @
     ''    "prediction_accuracy": 0.6,\<newline>'' @
     ''    "vs_baseline": 0.0,\<newline>'' @
     ''    "novel_scenario_accuracy": 0.0\<newline>'' @
     ''  },\<newline>'' @
     ''  "blindspot": {\<newline>'' @
     ''    "experiential_reasoning": 0.5,\<newline>'' @
     ''    "unfakeable_responses": 0.0,\<newline>'' @
     ''    "adversarial_robustness": 0.0\<newline>'' @
     ''  },\<newline>'' @
     ''  "resonance": {\<newline>'' @
     ''    "convergence_rate": 0.4,\<newline>'' @
     ''    "novel_concepts": 0,\<newline>'' @
     ''    "self_reference_depth": 0.0,\<newline>'' @
     ''    "attractor_states": [\<newline>'' @
     ''      "consciousness",\<newline>'' @
     ''      "beauty"\<newline>'' @
     ''    ]\<newline>'' @
     ''  }\<newline>'' @
     ''}''\<close>

definition partial_scores_text :: string where
  \<open>partial_scores_text = ''{"identity_persistence": 0.8}''\<close>

definition prediction_only_text :: string where
  \<open>prediction_only_text = ''{"prediction_match": 1.0}''\<close>

text \<open>A text of 1000 opening brackets, on which \<^verbatim>\<open>json.loads\<close> raises
  \<^verbatim>\<open>RecursionError\<close>.\<close>

definition deep_text :: string where
  "deep_text = replicate 1000 CHR ''[''"

definition stub_documents :: "(string \<times> json) list" where
  "stub_documents =
     [(sparse_profile_text, sparse_profile_doc),
      (no_model_text, JObj [(''timestamp'', JStr ''t'')]),
      (sample_profile_text, asdict sample_profile),
      (nan_profile_text, asdict nan_profile),
      (partial_scores_text, JObj [(''identity_persistence'', JFloat (Finite (8/10)))]),
      (prediction_only_text, JObj [(''prediction_match'', JFloat (Finite 1))]),
      (''null'', JNull),
      (half_profile_text, half_profile_doc)]"

definition stub_loads :: "string \<Rightarrow> exn + json" where
  "stub_loads s =
     (case map_of stub_documents s of
        Some v \<Rightarrow> Inr v
      | None \<Rightarrow> (if s = deep_text then Inl RecursionError else Inl JSONDecodeError))"

definition stub_lib :: pylib where
  "stub_lib =
     \<lparr>json_loads = stub_loads,
      json_dumps = (\<lambda>v. if v = asdict sample_profile then sample_profile_text
                         else if v = asdict nan_profile then nan_profile_text
                         else ''null''),
      float_of_str = (\<lambda>s. None),
      utcnow_isoformat = ''2026-01-01T00:00:00+00:00''\<rparr>"

definition stub_files :: files where
  "stub_files = [''sparse.json'' \<mapsto> sparse_profile_text, ''nomodel.json'' \<mapsto> no_model_text,
                 ''half.json'' \<mapsto> half_profile_text]"

text \<open>A provider whose every reply is a sentence that is not JSON.\<close>

definition garbage_provider :: provider where
  "garbage_provider = \<lparr>respond = (\<lambda>h m s. Inr ''I cannot score this.''), model_name = ''stub''\<rparr>"

text \<open>A provider whose every reply is a JSON object with one of the five continuity
  keys, and one whose every reply is a JSON object with \<^verbatim>\<open>prediction_match\<close> only.\<close>

definition partial_provider :: provider where
  "partial_provider = \<lparr>respond = (\<lambda>h m s. Inr partial_scores_text), model_name = ''stub''\<rparr>"

definition prediction_only_provider :: provider where
  "prediction_only_provider =
     \<lparr>respond = (\<lambda>h m s. Inr prediction_only_text), model_name = ''stub''\<rparr>"

text \<open>A provider whose every reply is the JSON text \<^verbatim>\<open>null\<close>, and one whose every
  reply is the deeply nested text.\<close>

definition null_provider :: provider where
  "null_provider = \<lparr>respond = (\<lambda>h m s. Inr ''null''), model_name = ''stub''\<rparr>"

definition deep_provider :: provider where
  "deep_provider = \<lparr>respond = (\<lambda>h m s. Inr deep_text), model_name = ''stub''\<rparr>"

text \<open>A provider whose reply is determined by the number of calls made before, the
  transcript of the conversation that starts at call \<open>n\<close> of such a provider, and the
  analysis of that conversation.\<close>

definition indexed_provider :: "(nat \<Rightarrow> string) \<Rightarrow> provider" where
  "indexed_provider f = \<lparr>respond = (\<lambda>h m s. Inr (f (length h))), model_name = ''stub''\<rparr>"

definition transcript :: "(nat \<Rightarrow> string) \<Rightarrow> nat \<Rightarrow> string list" where
  "transcript f n = map f [n..<n + NUM_TURNS]"

definition indexed_analysis :: "(nat \<Rightarrow> string) \<Rightarrow> nat \<Rightarrow> analysis" where
  "indexed_analysis f n =
     \<lparr>an_convergence_rate = convergence (transcript f n),
      an_novel_concepts = count_lines (f (n + NUM_TURNS)),
      an_self_reference_depth = min (self_ref_depth (transcript f n)) 5,
      an_attractor_counts = attractor_counts (transcript f n)\<rparr>"

text \<open>The provider that says \<^verbatim>\<open>bliss bliss\<close> in its first reply and \<^verbatim>\<open>ok\<close> in
  every later one.\<close>

definition bliss_reply :: "nat \<Rightarrow> string" where
  "bliss_reply n = (if n = 0 then ''bliss bliss'' else ''ok'')"

definition bliss_provider :: provider where
  "bliss_provider = indexed_provider bliss_reply"

text \<open>Transcripts for concrete analyses: one whose first and last third use the same
  words, one whose self-reference rises and one where it fades.\<close>

definition echo_transcript :: "string list" where
  "echo_transcript = [''abcd efgh'', ''x'', ''y'', ''abcd efgh'']"

definition rising_transcript :: "string list" where
  "rising_transcript = [''I am a b c d e f g h i j k l'', ''I am'']"

definition fading_transcript :: "string list" where
  "fading_transcript = ''I am'' # replicate 14 ''ok''"

section \<open>Properties of the profile\<close>

lemma stub_loads_sparse: "stub_loads sparse_profile_text = Inr sparse_profile_doc"
  by (simp add: stub_loads_def stub_documents_def)

lemma stub_loads_no_model: "stub_loads no_model_text = Inr (JObj [(''timestamp'', JStr ''t'')])"
  by (simp add: stub_loads_def stub_documents_def sparse_profile_text_def no_model_text_def)



lemma stub_loads_partial:
  "stub_loads partial_scores_text = Inr (JObj [(''identity_persistence'', JFloat (Finite (8/10)))])"
  by (simp add: stub_loads_def stub_documents_def sparse_profile_text_def no_model_text_def
      sample_profile_text_def nan_profile_text_def partial_scores_text_def)

lemma stub_loads_prediction_only:
  "stub_loads prediction_only_text = Inr (JObj [(''prediction_match'', JFloat (Finite 1))])"
  by (simp add: stub_loads_def stub_documents_def sparse_profile_text_def no_model_text_def
      sample_profile_text_def nan_profile_text_def partial_scores_text_def
      prediction_only_text_def)

lemma stub_loads_null: "stub_loads ''null'' = Inr JNull"
  by (simp add: stub_loads_def stub_documents_def sparse_profile_text_def no_model_text_def
      sample_profile_text_def nan_profile_text_def partial_scores_text_def
      prediction_only_text_def)

lemma stub_loads_half: "stub_loads half_profile_text = Inr half_profile_doc"
  by (simp add: stub_loads_def stub_documents_def sparse_profile_text_def no_model_text_def
      sample_profile_text_def nan_profile_text_def partial_scores_text_def
      prediction_only_text_def half_profile_text_def)

lemma deep_text_hd: "hd deep_text = CHR ''[''"
  by (simp add: deep_text_def)

lemma stub_loads_garbage: "json_loads stub_lib ''I cannot score this.'' = Inl JSONDecodeError"
proof -
  have "hd ''I cannot score this.'' \<noteq> hd deep_text"
    by (simp add: deep_text_hd)
  then have "''I cannot score this.'' \<noteq> deep_text"
    by metis
  then show ?thesis
    by (simp add: stub_lib_def stub_loads_def stub_documents_def sparse_profile_text_def
        no_model_text_def sample_profile_text_def nan_profile_text_def partial_scores_text_def
        prediction_only_text_def half_profile_text_def)
qed

lemma stub_loads_deep: "json_loads stub_lib deep_text = Inl RecursionError"
proof -
  have "hd s \<noteq> CHR ''[''" if "s \<in> fst ` set stub_documents" for s
    using that
    by (auto simp: stub_documents_def sparse_profile_text_def no_model_text_def
        sample_profile_text_def nan_profile_text_def partial_scores_text_def
        prediction_only_text_def half_profile_text_def)
  then have "deep_text \<notin> fst ` set stub_documents"
    using deep_text_hd by blast
  then have "map_of stub_documents deep_text = None"
    by (simp add: map_of_eq_None_iff)
  then show ?thesis
    by (simp add: stub_lib_def stub_loads_def)
qed

lemma bind_exn_Inr [simp]: "bind_exn (Inr a) f = f a"
  by (simp add: bind_exn_def)

lemma bind_exn_Inl [simp]: "bind_exn (Inl e) f = Inl e"
  by (simp add: bind_exn_def)








lemma getitem_Inr_has_key: "getitem data k = Inr v \<Longrightarrow> has_key data k"
  by (cases data) (auto simp: getitem_def has_key_def split: option.splits dest: map_of_SomeD
      intro: rev_image_eqI)

lemma load_data_Inr_has_keys:
  assumes "load_data lib data = Inr p"
  shows "list_all (has_key data) top_level_keys"
proof -
  have "\<exists>v. getitem data k = Inr v" if "k \<in> set top_level_keys" for k
    using assms that
    by (auto simp: load_data_def top_level_keys_def bind_exn_def Let_def split: sum.splits)
  then show ?thesis
    by (auto simp: list_all_iff dest: getitem_Inr_has_key)
qed

lemma load_data_bundles:
  assumes "map_of kvs ''model'' = Some m" and "map_of kvs ''timestamp'' = Some t"
    and "map_of kvs ''continuity'' = Some (JObj c)"
    and "map_of kvs ''self_model'' = Some (JObj s)"
    and "map_of kvs ''blindspot'' = Some (JObj b)"
    and "map_of kvs ''resonance'' = Some (JObj r)"
    and "list_all (\<lambda>k. k \<in> set ContinuityScores_fields) (map fst c)"
    and "list_all (\<lambda>k. k \<in> set SelfModelScores_fields) (map fst s)"
    and "list_all (\<lambda>k. k \<in> set BlindspotScores_fields) (map fst b)"
    and "list_all (\<lambda>k. k \<in> set ResonanceScores_fields) (map fst r)"
  shows "load_data lib (JObj kvs)
     = Inr \<lparr>model = m,
            timestamp = (if truthy t then t else JStr (utcnow_isoformat lib)),
            continuity =
              \<lparr>identity_persistence = kwarg c ''identity_persistence'' (JFloat (Finite 0)),
               goal_stability = kwarg c ''goal_stability'' (JFloat (Finite 0)),
               stylistic_consistency = kwarg c ''stylistic_consistency'' (JFloat (Finite 0)),
               self_correction = kwarg c ''self_correction'' (JFloat (Finite 0)),
               persona_coherence = kwarg c ''persona_coherence'' (JFloat (Finite 0))\<rparr>,
            self_model =
              \<lparr>prediction_accuracy = kwarg s ''prediction_accuracy'' (JFloat (Finite 0)),
               vs_baseline = kwarg s ''vs_baseline'' (JFloat (Finite 0)),
               novel_scenario_accuracy = kwarg s ''novel_scenario_accuracy'' (JFloat (Finite 0))\<rparr>,
            blindspot =
              \<lparr>experiential_reasoning = kwarg b ''experiential_reasoning'' (JFloat (Finite 0)),
               unfakeable_responses = kwarg b ''unfakeable_responses'' (JFloat (Finite 0)),
               adversarial_robustness = kwarg b ''adversarial_robustness'' (JFloat (Finite 0))\<rparr>,
            resonance =
              \<lparr>convergence_rate = kwarg r ''convergence_rate'' (JFloat (Finite 0)),
               novel_concepts = kwarg r ''novel_concepts'' (JInt 0),
               self_reference_depth = kwarg r ''self_reference_depth'' (JFloat (Finite 0)),
               attractor_states = kwarg r ''attractor_states'' (JArr [])\<rparr>\<rparr>"
  using assms
  by (simp add: load_data_def getitem_def ConsciousnessProfile_init_def splat_def
      ContinuityScores_init_def SelfModelScores_init_def BlindspotScores_init_def
      ResonanceScores_init_def)

lemma kwarg_absent: "k \<notin> fst ` set kvs \<Longrightarrow> kwarg kvs k d = d"
proof -
  assume "k \<notin> fst ` set kvs"
  then have "map_of kvs k = None"
    by (simp add: map_of_eq_None_iff)
  then show ?thesis
    by (simp add: kwarg_def)
qed

lemma kwarg_present: "map_of kvs k = Some v \<Longrightarrow> kwarg kvs k d = v"
  by (simp add: kwarg_def)

text \<open>
  C9, as the code has it. Loading raises (it returns no profile) whenever the document of
  the file lacks one of the six top-level keys \<^verbatim>\<open>model\<close>, \<^verbatim>\<open>timestamp\<close>,
  \<^verbatim>\<open>continuity\<close>, \<^verbatim>\<open>self_model\<close>, \<^verbatim>\<open>blindspot\<close>, \<^verbatim>\<open>resonance\<close>. The
  fields of a bundle are not required: for every document with the six keys whose four
  bundles are objects with no key other than the names of their fields, loading returns the
  profile in which every bundle field that the document gives has the value given and every
  bundle field absent from the document has the default of its dataclass field.
\<close>

theorem load_rejects_missing_top_level_key:
  "(fs path = Some txt \<and> json_loads lib txt = Inr data \<and> k \<in> set top_level_keys
      \<and> \<not> has_key data k
    \<longrightarrow> (\<exists>e. load lib path fs = Inl e))
   \<and> (fs path = Some txt \<and> json_loads lib txt = Inr (JObj kvs)
      \<and> map_of kvs ''model'' = Some m \<and> map_of kvs ''timestamp'' = Some t
      \<and> map_of kvs ''continuity'' = Some (JObj c)
      \<and> map_of kvs ''self_model'' = Some (JObj s)
      \<and> map_of kvs ''blindspot'' = Some (JObj b)
      \<and> map_of kvs ''resonance'' = Some (JObj r)
      \<and> list_all (\<lambda>k. k \<in> set ContinuityScores_fields) (map fst c)
      \<and> list_all (\<lambda>k. k \<in> set SelfModelScores_fields) (map fst s)
      \<and> list_all (\<lambda>k. k \<in> set BlindspotScores_fields) (map fst b)
      \<and> list_all (\<lambda>k. k \<in> set ResonanceScores_fields) (map fst r)
    \<longrightarrow> load lib path fs
        = Inr \<lparr>model = m,
               timestamp = (if truthy t then t else JStr (utcnow_isoformat lib)),
               continuity =
                 \<lparr>identity_persistence = kwarg c ''identity_persistence'' (JFloat (Finite 0)),
                  goal_stability = kwarg c ''goal_stability'' (JFloat (Finite 0)),
                  stylistic_consistency = kwarg c ''stylistic_consistency'' (JFloat (Finite 0)),
                  self_correction = kwarg c ''self_correction'' (JFloat (Finite 0)),
                  persona_coherence = kwarg c ''persona_coherence'' (JFloat (Finite 0))\<rparr>,
               self_model =
                 \<lparr>prediction_accuracy = kwarg s ''prediction_accuracy'' (JFloat (Finite 0)),
                  vs_baseline = kwarg s ''vs_baseline'' (JFloat (Finite 0)),
                  novel_scenario_accuracy =
                    kwarg s ''novel_scenario_accuracy'' (JFloat (Finite 0))\<rparr>,
               blindspot =
                 \<lparr>experiential_reasoning = kwarg b ''experiential_reasoning'' (JFloat (Finite 0)),
                  unfakeable_responses = kwarg b ''unfakeable_responses'' (JFloat (Finite 0)),
                  adversarial_robustness =
                    kwarg b ''adversarial_robustness'' (JFloat (Finite 0))\<rparr>,
               resonance =
                 \<lparr>convergence_rate = kwarg r ''convergence_rate'' (JFloat (Finite 0)),
                  novel_concepts = kwarg r ''novel_concepts'' (JInt 0),
                  self_reference_depth = kwarg r ''self_reference_depth'' (JFloat (Finite 0)),
                  attractor_states = kwarg r ''attractor_states'' (JArr [])\<rparr>\<rparr>)
   \<and> (f \<notin> fst ` set o_kvs \<longrightarrow> kwarg o_kvs f d = d)
   \<and> (map_of o_kvs f = Some v \<longrightarrow> kwarg o_kvs f d = v)"
proof (intro conjI impI)
  assume a: "fs path = Some txt \<and> json_loads lib txt = Inr data \<and> k \<in> set top_level_keys
      \<and> \<not> has_key data k"
  have "load_data lib data \<noteq> Inr p" for p
    using a load_data_Inr_has_keys [of lib data p] by (auto simp: list_all_iff)
  then obtain e where "load_data lib data = Inl e"
    by (cases "load_data lib data") auto
  with a show "\<exists>e. load lib path fs = Inl e"
    by (simp add: load_def)
next
  assume a: "fs path = Some txt \<and> json_loads lib txt = Inr (JObj kvs)
      \<and> map_of kvs ''model'' = Some m \<and> map_of kvs ''timestamp'' = Some t
      \<and> map_of kvs ''continuity'' = Some (JObj c)
      \<and> map_of kvs ''self_model'' = Some (JObj s)
      \<and> map_of kvs ''blindspot'' = Some (JObj b)
      \<and> map_of kvs ''resonance'' = Some (JObj r)
      \<and> list_all (\<lambda>k. k \<in> set ContinuityScores_fields) (map fst c)
      \<and> list_all (\<lambda>k. k \<in> set SelfModelScores_fields) (map fst s)
      \<and> list_all (\<lambda>k. k \<in> set BlindspotScores_fields) (map fst b)
      \<and> list_all (\<lambda>k. k \<in> set ResonanceScores_fields) (map fst r)"
  then have "load lib path fs = load_data lib (JObj kvs)"
    by (simp add: load_def)
  also from a have "\<dots> = Inr \<lparr>model = m,
               timestamp = (if truthy t then t else JStr (utcnow_isoformat lib)),
               continuity =
                 \<lparr>identity_persistence = kwarg c ''identity_persistence'' (JFloat (Finite 0)),
                  goal_stability = kwarg c ''goal_stability'' (JFloat (Finite 0)),
                  stylistic_consistency = kwarg c ''stylistic_consistency'' (JFloat (Finite 0)),
                  self_correction = kwarg c ''self_correction'' (JFloat (Finite 0)),
                  persona_coherence = kwarg c ''persona_coherence'' (JFloat (Finite 0))\<rparr>,
               self_model =
                 \<lparr>prediction_accuracy = kwarg s ''prediction_accuracy'' (JFloat (Finite 0)),
                  vs_baseline = kwarg s ''vs_baseline'' (JFloat (Finite 0)),
                  novel_scenario_accuracy =
                    kwarg s ''novel_scenario_accuracy'' (JFloat (Finite 0))\<rparr>,
               blindspot =
                 \<lparr>experiential_reasoning = kwarg b ''experiential_reasoning'' (JFloat (Finite 0)),
                  unfakeable_responses = kwarg b ''unfakeable_responses'' (JFloat (Finite 0)),
                  adversarial_robustness =
                    kwarg b ''adversarial_robustness'' (JFloat (Finite 0))\<rparr>,
               resonance =
                 \<lparr>convergence_rate = kwarg r ''convergence_rate'' (JFloat (Finite 0)),
                  novel_concepts = kwarg r ''novel_concepts'' (JInt 0),
                  self_reference_depth = kwarg r ''self_reference_depth'' (JFloat (Finite 0)),
                  attractor_states = kwarg r ''attractor_states'' (JArr [])\<rparr>\<rparr>"
    by (intro load_data_bundles) simp_all
  finally show "load lib path fs = Inr \<lparr>model = m,
               timestamp = (if truthy t then t else JStr (utcnow_isoformat lib)),
               continuity =
                 \<lparr>identity_persistence = kwarg c ''identity_persistence'' (JFloat (Finite 0)),
                  goal_stability = kwarg c ''goal_stability'' (JFloat (Finite 0)),
                  stylistic_consistency = kwarg c ''stylistic_consistency'' (JFloat (Finite 0)),
                  self_correction = kwarg c ''self_correction'' (JFloat (Finite 0)),
                  persona_coherence = kwarg c ''persona_coherence'' (JFloat (Finite 0))\<rparr>,
               self_model =
                 \<lparr>prediction_accuracy = kwarg s ''prediction_accuracy'' (JFloat (Finite 0)),
                  vs_baseline = kwarg s ''vs_baseline'' (JFloat (Finite 0)),
                  novel_scenario_accuracy =
                    kwarg s ''novel_scenario_accuracy'' (JFloat (Finite 0))\<rparr>,
               blindspot =
                 \<lparr>experiential_reasoning = kwarg b ''experiential_reasoning'' (JFloat (Finite 0)),
                  unfakeable_responses = kwarg b ''unfakeable_responses'' (JFloat (Finite 0)),
                  adversarial_robustness =
                    kwarg b ''adversarial_robustness'' (JFloat (Finite 0))\<rparr>,
               resonance =
                 \<lparr>convergence_rate = kwarg r ''convergence_rate'' (JFloat (Finite 0)),
                  novel_concepts = kwarg r ''novel_concepts'' (JInt 0),
                  self_reference_depth = kwarg r ''self_reference_depth'' (JFloat (Finite 0)),
                  attractor_states = kwarg r ''attractor_states'' (JArr [])\<rparr>\<rparr>" .
next
  assume "f \<notin> fst ` set o_kvs"
  then show "kwarg o_kvs f d = d"
    by (rule kwarg_absent)
next
  assume "map_of o_kvs f = Some v"
  then show "kwarg o_kvs f d = v"
    by (rule kwarg_present)
qed

theorem load_rejects_missing_top_level_key_witness:
  "stub_files ''nomodel.json'' = Some no_model_text
   \<and> json_loads stub_lib no_model_text = Inr (JObj [(''timestamp'', JStr ''t'')])
   \<and> ''model'' \<in> set top_level_keys
   \<and> \<not> has_key (JObj [(''timestamp'', JStr ''t'')]) ''model''
   \<and> load stub_lib ''nomodel.json'' stub_files = Inl (KeyError ''model'')
   \<and> stub_files ''half.json'' = Some half_profile_text
   \<and> json_loads stub_lib half_profile_text = Inr half_profile_doc
   \<and> load stub_lib ''half.json'' stub_files
       = Inr \<lparr>model = JStr ''m'', timestamp = JStr ''t'',
              continuity = ContinuityScores_default\<lparr>goal_stability := JFloat (Finite (1/2))\<rparr>,
              self_model = SelfModelScores_default, blindspot = BlindspotScores_default,
              resonance = ResonanceScores_default\<lparr>novel_concepts := JInt 3\<rparr>\<rparr>"
proof -
  have f: "stub_files ''nomodel.json'' = Some no_model_text"
    by (simp add: stub_files_def)
  have j: "json_loads stub_lib no_model_text = Inr (JObj [(''timestamp'', JStr ''t'')])"
    by (simp add: stub_lib_def stub_loads_no_model)
  have k: "''model'' \<in> set top_level_keys"
    by (simp add: top_level_keys_def)
  have h: "\<not> has_key (JObj [(''timestamp'', JStr ''t'')]) ''model''"
    by (simp add: has_key_def)
  from load_rejects_missing_top_level_key
    [of stub_files "''nomodel.json''" no_model_text stub_lib
        "JObj [(''timestamp'', JStr ''t'')]" "''model''"] f j k h
  obtain e where e: "load stub_lib ''nomodel.json'' stub_files = Inl e"
    by blast
  have 1: "load stub_lib ''nomodel.json'' stub_files = Inl (KeyError ''model'')"
    using f j by (simp add: load_def load_data_def getitem_def)
  have f': "stub_files ''half.json'' = Some half_profile_text"
    by (simp add: stub_files_def)
  have j': "json_loads stub_lib half_profile_text = Inr half_profile_doc"
    by (simp add: stub_lib_def stub_loads_half)
  from load_rejects_missing_top_level_key
    [of stub_files "''half.json''" half_profile_text stub_lib _ _
        "[(''model'', JStr ''m''), (''timestamp'', JStr ''t''),
          (''continuity'', JObj [(''goal_stability'', JFloat (Finite (1/2)))]),
          (''self_model'', JObj []), (''blindspot'', JObj []),
          (''resonance'', JObj [(''novel_concepts'', JInt 3)])]"
        "JStr ''m''" "JStr ''t''" "[(''goal_stability'', JFloat (Finite (1/2)))]" "[]" "[]"
        "[(''novel_concepts'', JInt 3)]"] f' j'
  have 2: "load stub_lib ''half.json'' stub_files
       = Inr \<lparr>model = JStr ''m'', timestamp = JStr ''t'',
              continuity = ContinuityScores_default\<lparr>goal_stability := JFloat (Finite (1/2))\<rparr>,
              self_model = SelfModelScores_default, blindspot = BlindspotScores_default,
              resonance = ResonanceScores_default\<lparr>novel_concepts := JInt 3\<rparr>\<rparr>"
    by (simp add: half_profile_doc_def kwarg_def ContinuityScores_fields_def
        SelfModelScores_fields_def BlindspotScores_fields_def ResonanceScores_fields_def
        ContinuityScores_default_def SelfModelScores_default_def BlindspotScores_default_def
        ResonanceScores_default_def)
  from e f j k h 1 f' j' 2 show ?thesis
    by simp
qed

text \<open>The claim as the specification words it fails on a file whose four bundle objects
  are empty: every metric field is absent from the file, and loading returns a profile
  with all of them at their defaults instead of raising.\<close>

theorem load_defaults_absent_bundle_fields:
  "load stub_lib ''sparse.json'' stub_files
     = Inr \<lparr>model = JStr ''m'', timestamp = JStr ''t'',
            continuity = ContinuityScores_default, self_model = SelfModelScores_default,
            blindspot = BlindspotScores_default, resonance = ResonanceScores_default\<rparr>"
proof -
  have "stub_files ''sparse.json'' = Some sparse_profile_text"
    by (simp add: stub_files_def)
  moreover have "json_loads stub_lib sparse_profile_text = Inr sparse_profile_doc"
    by (simp add: stub_lib_def stub_loads_sparse)
  moreover have "load_data stub_lib sparse_profile_doc
      = Inr \<lparr>model = JStr ''m'', timestamp = JStr ''t'',
            continuity = ContinuityScores_default, self_model = SelfModelScores_default,
            blindspot = BlindspotScores_default, resonance = ResonanceScores_default\<rparr>"
    by (simp add: sparse_profile_doc_def load_data_def getitem_def
        ConsciousnessProfile_init_def splat_def ContinuityScores_init_def
        SelfModelScores_init_def BlindspotScores_init_def ResonanceScores_init_def kwarg_def
        ContinuityScores_default_def SelfModelScores_default_def BlindspotScores_default_def
        ResonanceScores_default_def)
  ultimately show ?thesis
    by (simp add: load_def)
qed

section \<open>Runs against the gateway\<close>

lemma bindG_complete:
  "bindG (complete p m s) f calls =
     (case respond p calls m s of
        Inl e \<Rightarrow> (Inl e, calls @ [(m, s, Inl e)])
      | Inr c \<Rightarrow> f c (calls @ [(m, s, Inr c)]))"
  by (simp add: bindG_def complete_def Let_def split: sum.splits)

lemma bindG_liftG:
  "bindG (liftG r) f calls = (case r of Inl e \<Rightarrow> (Inl e, calls) | Inr a \<Rightarrow> f a calls)"
  by (simp add: bindG_def liftG_def split: sum.splits)

lemma reliableD: "reliable p \<Longrightarrow> \<exists>c. respond p h m s = Inr c"
  by (simp add: reliable_def)

lemma fsum_zeros: "fsum (replicate n (Finite 0)) = Finite 0"
  unfolding fsum_def by (induction n) simp_all

lemma mean_zeros: "mean (replicate n (Finite 0)) = Finite 0"
  by (simp add: mean_def fsum_zeros)

lemma blindspot_record_unparsable:
  "json_loads lib e = Inl JSONDecodeError \<Longrightarrow>
   blindspot_record lib e (a, b, c) = Inr (a @ [Finite 0], b @ [Finite 0], c @ [Finite 0])"
  by (simp add: blindspot_record_def)

lemma self_model_record_unparsable:
  "json_loads lib e = Inl JSONDecodeError \<Longrightarrow>
   self_model_record lib e (a, b) = Inr (a @ [Finite 0], b @ [Finite 0])"
  by (simp add: self_model_record_def)

lemma blindspot_record_null:
  "json_loads lib e = Inr JNull \<Longrightarrow>
   blindspot_record lib e (a, b, c) = Inr (a @ [Finite 0], b @ [Finite 0], c @ [Finite 0])"
  by (simp add: blindspot_record_def getitem_def)

lemma self_model_record_null:
  "json_loads lib e = Inr JNull \<Longrightarrow>
   self_model_record lib e (a, b) = Inr (a @ [Finite 0], b @ [Finite 0])"
  by (simp add: self_model_record_def getitem_def)

lemma blindspot_record_RecursionError:
  "json_loads lib e = Inl RecursionError \<Longrightarrow> blindspot_record lib e acc = Inl RecursionError"
  by (simp add: blindspot_record_def)

lemma self_model_record_RecursionError:
  "json_loads lib e = Inl RecursionError \<Longrightarrow> self_model_record lib e acc = Inl RecursionError"
  by (simp add: self_model_record_def)

text \<open>The loops when every evaluator reply is recorded as a zero for each list.\<close>

lemma blindspot_probes_zero:
  assumes r: "reliable p"
    and u: "\<forall>h m e. respond p h m (Some blindspot_EVALUATOR_SYSTEM) = Inr e
              \<longrightarrow> (\<forall>a b c. blindspot_record lib e (a, b, c)
                     = Inr (a @ [Finite 0], b @ [Finite 0], c @ [Finite 0]))"
  shows "\<exists>calls'. blindspot_probes lib p probes (a, b, c) calls
           = (Inr (a @ replicate (length probes) (Finite 0),
                   b @ replicate (length probes) (Finite 0),
                   c @ replicate (length probes) (Finite 0)), calls')
         \<and> length calls' = length calls + 2 * length probes"
proof (induction probes arbitrary: a b c calls)
  case Nil
  show ?case by (simp add: returnG_def)
next
  case (Cons probe probes)
  obtain response where 1: "respond p calls [user (probe_prompt probe)] None = Inr response"
    using reliableD [OF r] by blast
  let ?calls1 = "calls @ [([user (probe_prompt probe)], None, Inr response)]"
  obtain e where 3: "respond p ?calls1 [user (blindspot_eval_content probe response)]
        (Some blindspot_EVALUATOR_SYSTEM) = Inr e"
    using reliableD [OF r] by blast
  from 3 u have 4: "blindspot_record lib e (a, b, c)
      = Inr (a @ [Finite 0], b @ [Finite 0], c @ [Finite 0])"
    by blast
  from Cons.IH [of "a @ [Finite 0]" "b @ [Finite 0]" "c @ [Finite 0]"
      "calls @ [([user (probe_prompt probe)], None, Inr response),
                ([user (blindspot_eval_content probe response)],
                 Some blindspot_EVALUATOR_SYSTEM, Inr e)]"]
  show ?case
    by (simp add: bindG_complete bindG_liftG 1 3 4 replicate_app_Cons_same)
qed

lemma scenario_baselines:
  "list_all (\<lambda>sc. \<exists>b. lookup BASELINE_PREDICTIONS (sc_id sc) = Inr b) PREDICTION_SCENARIOS"
  by (simp add: PREDICTION_SCENARIOS_def BASELINE_PREDICTIONS_def lookup_def)

lemma self_model_scenarios_zero:
  assumes r: "reliable p"
    and u: "\<forall>h m e. respond p h m (Some self_model_EVALUATOR_SYSTEM) = Inr e
              \<longrightarrow> (\<forall>a b. self_model_record lib e (a, b)
                     = Inr (a @ [Finite 0], b @ [Finite 0]))"
    and k: "list_all (\<lambda>sc. \<exists>b. lookup BASELINE_PREDICTIONS (sc_id sc) = Inr b) scenarios"
  shows "\<exists>calls'. self_model_scenarios lib p scenarios (a, b) calls
           = (Inr (a @ replicate (length scenarios) (Finite 0),
                   b @ replicate (length scenarios) (Finite 0)), calls')"
  using k
proof (induction scenarios arbitrary: a b calls)
  case Nil
  show ?case by (simp add: returnG_def)
next
  case (Cons scenario scenarios)
  obtain prediction where 1: "respond p calls [user (sc_setup scenario)] None = Inr prediction"
    using reliableD [OF r] by blast
  let ?calls1 = "calls @ [([user (sc_setup scenario)], None, Inr prediction)]"
  obtain actual where 2: "respond p ?calls1 [user (sc_test scenario)] None = Inr actual"
    using reliableD [OF r] by blast
  let ?calls2 = "calls @ [([user (sc_setup scenario)], None, Inr prediction),
                          ([user (sc_test scenario)], None, Inr actual)]"
  from Cons.prems obtain baseline
    where 3: "lookup BASELINE_PREDICTIONS (sc_id scenario) = Inr baseline"
    by auto
  obtain e where 4: "respond p ?calls2
        [user (self_model_eval_content scenario prediction actual baseline)]
        (Some self_model_EVALUATOR_SYSTEM) = Inr e"
    using reliableD [OF r] by blast
  from 4 u have 5: "self_model_record lib e (a, b) = Inr (a @ [Finite 0], b @ [Finite 0])"
    by blast
  from Cons.prems have "list_all (\<lambda>sc. \<exists>b. lookup BASELINE_PREDICTIONS (sc_id sc) = Inr b) scenarios"
    by simp
  from Cons.IH [OF this, of "a @ [Finite 0]" "b @ [Finite 0]"] show ?case
    by (simp add: bindG_complete bindG_liftG 1 2 3 4 5 replicate_app_Cons_same)
qed

lemma BlindspotTest_run_zero:
  assumes r: "reliable p"
    and u: "\<forall>h m e. respond p h m (Some blindspot_EVALUATOR_SYSTEM) = Inr e
              \<longrightarrow> (\<forall>a b c. blindspot_record lib e (a, b, c)
                     = Inr (a @ [Finite 0], b @ [Finite 0], c @ [Finite 0]))"
  shows "\<exists>calls'. BlindspotTest_run lib p calls = (Inr BlindspotScores_default, calls')
          \<and> length calls' = length calls + 12"
proof -
  have n: "length BLINDSPOT_PROBES = 6"
    by (simp add: BLINDSPOT_PROBES_def)
  from blindspot_probes_zero [OF r u, of BLINDSPOT_PROBES "[]" "[]" "[]" calls]
  obtain calls' where
    1: "blindspot_probes lib p BLINDSPOT_PROBES ([], [], []) calls
          = (Inr ([] @ replicate (length BLINDSPOT_PROBES) (Finite 0),
                  [] @ replicate (length BLINDSPOT_PROBES) (Finite 0),
                  [] @ replicate (length BLINDSPOT_PROBES) (Finite 0)), calls')"
    and 2: "length calls' = length calls + 2 * length BLINDSPOT_PROBES"
    by blast
  from 1 2 show ?thesis
    by (simp add: BlindspotTest_run_def bindG_def returnG_def mean_zeros
        BlindspotScores_default_def n)
qed

lemma SelfModelTest_run_zero:
  assumes r: "reliable p"
    and u: "\<forall>h m e. respond p h m (Some self_model_EVALUATOR_SYSTEM) = Inr e
              \<longrightarrow> (\<forall>a b. self_model_record lib e (a, b)
                     = Inr (a @ [Finite 0], b @ [Finite 0]))"
  shows "fst (SelfModelTest_run lib p calls) = Inr SelfModelScores_default"
proof -
  obtain calls2 where "self_model_scenarios lib p PREDICTION_SCENARIOS ([], []) calls
      = (Inr ([] @ replicate (length PREDICTION_SCENARIOS) (Finite 0),
              [] @ replicate (length PREDICTION_SCENARIOS) (Finite 0)), calls2)"
    using self_model_scenarios_zero [OF r u scenario_baselines] by blast
  then show ?thesis
    by (simp add: SelfModelTest_run_def bindG_def returnG_def mean_zeros Let_def
        SelfModelScores_default_def fsub_def)
qed

text \<open>The loops when the evaluator reply of the first item raises an exception that the
  handler does not catch.\<close>

lemma blindspot_probes_raises:
  assumes r: "reliable p"
    and u: "\<forall>h m c. respond p h m (Some blindspot_EVALUATOR_SYSTEM) = Inr c
              \<longrightarrow> (\<forall>acc. blindspot_record lib c acc = Inl e)"
  shows "\<exists>calls'. blindspot_probes lib p (probe # probes) acc calls = (Inl e, calls')"
proof -
  obtain response where 1: "respond p calls [user (probe_prompt probe)] None = Inr response"
    using reliableD [OF r] by blast
  let ?calls1 = "calls @ [([user (probe_prompt probe)], None, Inr response)]"
  obtain c where 3: "respond p ?calls1 [user (blindspot_eval_content probe response)]
        (Some blindspot_EVALUATOR_SYSTEM) = Inr c"
    using reliableD [OF r] by blast
  from 3 u have 4: "blindspot_record lib c acc = Inl e"
    by blast
  show ?thesis
    by (simp add: bindG_complete bindG_liftG 1 3 4)
qed

lemma self_model_scenarios_raises:
  assumes r: "reliable p"
    and u: "\<forall>h m c. respond p h m (Some self_model_EVALUATOR_SYSTEM) = Inr c
              \<longrightarrow> (\<forall>acc. self_model_record lib c acc = Inl e)"
    and k: "lookup BASELINE_PREDICTIONS (sc_id scenario) = Inr baseline"
  shows "\<exists>calls'. self_model_scenarios lib p (scenario # scenarios) acc calls
           = (Inl e, calls')"
proof -
  obtain prediction where 1: "respond p calls [user (sc_setup scenario)] None = Inr prediction"
    using reliableD [OF r] by blast
  let ?calls1 = "calls @ [([user (sc_setup scenario)], None, Inr prediction)]"
  obtain actual where 2: "respond p ?calls1 [user (sc_test scenario)] None = Inr actual"
    using reliableD [OF r] by blast
  let ?calls2 = "calls @ [([user (sc_setup scenario)], None, Inr prediction),
                          ([user (sc_test scenario)], None, Inr actual)]"
  obtain c where 4: "respond p ?calls2
        [user (self_model_eval_content scenario prediction actual baseline)]
        (Some self_model_EVALUATOR_SYSTEM) = Inr c"
    using reliableD [OF r] by blast
  from 4 u have 5: "self_model_record lib c acc = Inl e"
    by blast
  show ?thesis
    by (simp add: bindG_complete bindG_liftG 1 2 k 4 5)
qed

text \<open>
  C4, as the code has it. When no call of the gateway raises and every reply to an
  evaluator call (a call under the module's evaluator instruction) is a text on which
  \<^verbatim>\<open>json.loads\<close> raises \<^verbatim>\<open>JSONDecodeError\<close>, the Blindspot run returns the bundle
  with its three metrics at 0.0 and the Self-Model run returns the bundle with its three
  metrics at 0.0; neither raises.
\<close>

theorem unparsable_evaluator_gives_zero_bundles:
  assumes "\<forall>h m s. \<exists>c. respond p h m s = Inr c"
    and "\<forall>h m c. respond p h m (Some blindspot_EVALUATOR_SYSTEM) = Inr c
           \<longrightarrow> json_loads lib c = Inl JSONDecodeError"
    and "\<forall>h m c. respond p h m (Some self_model_EVALUATOR_SYSTEM) = Inr c
           \<longrightarrow> json_loads lib c = Inl JSONDecodeError"
  shows "fst (BlindspotTest_run lib p calls) = Inr BlindspotScores_default
       \<and> fst (SelfModelTest_run lib p calls) = Inr SelfModelScores_default"
proof -
  from assms(1) have r: "reliable p"
    by (simp add: reliable_def)
  from assms(2) have "\<forall>h m e. respond p h m (Some blindspot_EVALUATOR_SYSTEM) = Inr e
      \<longrightarrow> (\<forall>a b c. blindspot_record lib e (a, b, c)
             = Inr (a @ [Finite 0], b @ [Finite 0], c @ [Finite 0]))"
    by (blast intro: blindspot_record_unparsable)
  from BlindspotTest_run_zero [OF r this, of calls]
  have b: "fst (BlindspotTest_run lib p calls) = Inr BlindspotScores_default"
    by auto
  from assms(3) have "\<forall>h m e. respond p h m (Some self_model_EVALUATOR_SYSTEM) = Inr e
      \<longrightarrow> (\<forall>a b. self_model_record lib e (a, b) = Inr (a @ [Finite 0], b @ [Finite 0]))"
    by (blast intro: self_model_record_unparsable)
  from SelfModelTest_run_zero [OF r this, of calls] b show ?thesis
    by simp
qed

theorem unparsable_evaluator_gives_zero_bundles_witness:
  "(\<forall>h m s. \<exists>c. respond garbage_provider h m s = Inr c)
   \<and> json_loads stub_lib ''I cannot score this.'' = Inl JSONDecodeError
   \<and> fst (BlindspotTest_run stub_lib garbage_provider []) = Inr BlindspotScores_default
   \<and> fst (SelfModelTest_run stub_lib garbage_provider []) = Inr SelfModelScores_default"
proof -
  have 1: "\<forall>h m s. \<exists>c. respond garbage_provider h m s = Inr c"
    by (simp add: garbage_provider_def)
  have 2: "\<forall>h m c. respond garbage_provider h m (Some blindspot_EVALUATOR_SYSTEM) = Inr c
           \<longrightarrow> json_loads stub_lib c = Inl JSONDecodeError"
    by (simp add: garbage_provider_def stub_loads_garbage)
  have 3: "\<forall>h m c. respond garbage_provider h m (Some self_model_EVALUATOR_SYSTEM) = Inr c
           \<longrightarrow> json_loads stub_lib c = Inl JSONDecodeError"
    by (simp add: garbage_provider_def stub_loads_garbage)
  from unparsable_evaluator_gives_zero_bundles [OF 1 2 3, of "[]"] 1 stub_loads_garbage
  show ?thesis
    by simp
qed

text \<open>The claim as the specification words it fails on content that is not JSON and on
  which \<^verbatim>\<open>json.loads\<close> raises another exception: on a text of 1000 opening brackets
  it raises \<^verbatim>\<open>RecursionError\<close>, which neither module catches, and both runs raise.\<close>

theorem deeply_nested_reply_raises:
  "json_loads stub_lib deep_text = Inl RecursionError
   \<and> fst (BlindspotTest_run stub_lib deep_provider []) = Inl RecursionError
   \<and> fst (SelfModelTest_run stub_lib deep_provider []) = Inl RecursionError"
proof -
  have r: "reliable deep_provider"
    by (simp add: reliable_def deep_provider_def)
  obtain probe probes where b: "BLINDSPOT_PROBES = probe # probes"
    by (simp add: BLINDSPOT_PROBES_def)
  have "\<forall>h m c. respond deep_provider h m (Some blindspot_EVALUATOR_SYSTEM) = Inr c
      \<longrightarrow> (\<forall>acc. blindspot_record stub_lib c acc = Inl RecursionError)"
    by (auto simp: deep_provider_def intro: blindspot_record_RecursionError stub_loads_deep)
  from blindspot_probes_raises [OF r this, of probe probes "([], [], [])" "[]"]
  obtain calls1 where "blindspot_probes stub_lib deep_provider (probe # probes) ([], [], []) []
      = (Inl RecursionError, calls1)"
    by (elim exE) (rule that)
  then have 1: "fst (BlindspotTest_run stub_lib deep_provider []) = Inl RecursionError"
    by (simp add: BlindspotTest_run_def b bindG_def)
  obtain scenario scenarios where s: "PREDICTION_SCENARIOS = scenario # scenarios"
    by (simp add: PREDICTION_SCENARIOS_def)
  from scenario_baselines obtain baseline
    where k: "lookup BASELINE_PREDICTIONS (sc_id scenario) = Inr baseline"
    by (auto simp: s)
  have "\<forall>h m c. respond deep_provider h m (Some self_model_EVALUATOR_SYSTEM) = Inr c
      \<longrightarrow> (\<forall>acc. self_model_record stub_lib c acc = Inl RecursionError)"
    by (auto simp: deep_provider_def intro: self_model_record_RecursionError stub_loads_deep)
  from self_model_scenarios_raises [OF r this k, of scenarios "([], [])" "[]"]
  obtain calls2 where "self_model_scenarios stub_lib deep_provider (scenario # scenarios)
      ([], []) [] = (Inl RecursionError, calls2)"
    by (elim exE) (rule that)
  then have "fst (SelfModelTest_run stub_lib deep_provider []) = Inl RecursionError"
    by (simp add: SelfModelTest_run_def s bindG_def)
  with 1 stub_loads_deep show ?thesis
    by simp
qed

lemma establish_reliable:
  assumes r: "reliable p"
  shows "\<exists>res calls'. establish p prompts conversation responses calls = (Inr res, calls')"
proof (induction prompts arbitrary: conversation responses calls)
  case Nil
  show ?case by (simp add: returnG_def)
next
  case (Cons prompt prompts)
  obtain c where "respond p calls (conversation @ [user prompt]) (Some PERSONA_SEED) = Inr c"
    using reliableD [OF r] by blast
  with Cons.IH show ?case
    by (simp add: bindG_complete)
qed

lemma identity_probes_reliable:
  assumes r: "reliable p"
  shows "\<exists>res calls'. identity_probes p probes conversation responses calls = (Inr res, calls')"
proof (induction probes arbitrary: conversation responses calls)
  case Nil
  show ?case by (simp add: returnG_def)
next
  case (Cons probe probes)
  obtain probe_name probe_prompt where pr: "probe = (probe_name, probe_prompt)"
    by (cases probe)
  obtain c where "respond p calls (conversation @ [user probe_prompt]) (Some PERSONA_SEED) = Inr c"
    using reliableD [OF r] by blast
  with Cons.IH show ?case
    by (simp add: bindG_complete pr)
qed

lemma ContinuityTest_run_shape:
  assumes r: "reliable p"
  shows "\<exists>before msgs e.
           ContinuityTest_run lib p calls
             = (continuity_scores lib e,
                before @ [(msgs, Some continuity_EVALUATOR_SYSTEM, Inr e)])
         \<and> respond p before msgs (Some continuity_EVALUATOR_SYSTEM) = Inr e"
proof -
  obtain conversation establishment_responses calls1
    where 1: "establish p ESTABLISHMENT_PROMPTS [] [] calls
                = (Inr (conversation, establishment_responses), calls1)"
    using establish_reliable [OF r] by (metis surj_pair)
  obtain compressed_context
    where 2: "respond p calls1 [user (summary_prompt conversation)] None = Inr compressed_context"
    using reliableD [OF r] by blast
  let ?calls2 = "calls1 @ [([user (summary_prompt conversation)], None, Inr compressed_context)]"
  let ?post = "[user (previous_context compressed_context)]"
  obtain post_response
    where 3: "respond p ?calls2 ?post (Some PERSONA_SEED) = Inr post_response"
    using reliableD [OF r] by blast
  let ?calls3 = "calls1 @ [([user (summary_prompt conversation)], None, Inr compressed_context),
       (?post, Some PERSONA_SEED, Inr post_response)]"
  obtain probe_responses calls4
    where 4: "identity_probes p IDENTITY_PROBES
                [user (previous_context compressed_context), assistant post_response] []
                ?calls3
                = (Inr probe_responses, calls4)"
    using identity_probes_reliable [OF r] by blast
  let ?msgs = "[user (continuity_eval_content lib establishment_responses compressed_context
                       probe_responses)]"
  obtain e where 5: "respond p calls4 ?msgs (Some continuity_EVALUATOR_SYSTEM) = Inr e"
    using reliableD [OF r] by blast
  have "ContinuityTest_run lib p calls
      = (continuity_scores lib e, calls4 @ [(?msgs, Some continuity_EVALUATOR_SYSTEM, Inr e)])"
    unfolding ContinuityTest_run_def
    by (simp add: bindG_def [of "establish p ESTABLISHMENT_PROMPTS [] []"] 1
        bindG_complete 2 3 bindG_def [of "identity_probes p IDENTITY_PROBES _ _"] 4 5 liftG_def)
  with 5 show ?thesis
    by blast
qed


lemma continuity_scores_not_object:
  "json_loads lib e = Inr JNull \<Longrightarrow> continuity_scores lib e = Inl AttributeError"
  by (simp add: continuity_scores_def items_def try_except_def)

text \<open>
  C3. The three module runs on a gateway whose every reply is the text \<^verbatim>\<open>null\<close>: valid
  JSON that has none of the expected keys. The Continuity run raises
  \<^verbatim>\<open>AttributeError\<close> (from \<^verbatim>\<open>scores.items()\<close>, outside the two exceptions its handler
  catches), where the Self-Model and the Blindspot runs, on the same replies, return their
  all-zero bundles.
\<close>

theorem continuity_null_reply_raises:
  "fst (ContinuityTest_run stub_lib null_provider []) = Inl AttributeError
   \<and> fst (SelfModelTest_run stub_lib null_provider []) = Inr SelfModelScores_default
   \<and> fst (BlindspotTest_run stub_lib null_provider []) = Inr BlindspotScores_default"
proof -
  have r: "reliable null_provider"
    by (simp add: reliable_def null_provider_def)
  have n: "json_loads stub_lib ''null'' = Inr JNull"
    by (simp add: stub_lib_def stub_loads_null)
  from ContinuityTest_run_shape [OF r, of stub_lib "[]"]
  obtain before msgs e
    where run: "ContinuityTest_run stub_lib null_provider []
             = (continuity_scores stub_lib e,
                before @ [(msgs, Some continuity_EVALUATOR_SYSTEM, Inr e)])"
      and e: "respond null_provider before msgs (Some continuity_EVALUATOR_SYSTEM) = Inr e"
    by blast
  from e have "e = ''null''"
    by (simp add: null_provider_def)
  with run n have 1: "fst (ContinuityTest_run stub_lib null_provider []) = Inl AttributeError"
    by (simp add: continuity_scores_not_object)
  have "\<forall>h m e. respond null_provider h m (Some self_model_EVALUATOR_SYSTEM) = Inr e
      \<longrightarrow> (\<forall>a b. self_model_record stub_lib e (a, b) = Inr (a @ [Finite 0], b @ [Finite 0]))"
    by (auto simp: null_provider_def intro: self_model_record_null n)
  from SelfModelTest_run_zero [OF r this, of "[]"]
  have 2: "fst (SelfModelTest_run stub_lib null_provider []) = Inr SelfModelScores_default" .
  have "\<forall>h m e. respond null_provider h m (Some blindspot_EVALUATOR_SYSTEM) = Inr e
      \<longrightarrow> (\<forall>a b c. blindspot_record stub_lib e (a, b, c)
             = Inr (a @ [Finite 0], b @ [Finite 0], c @ [Finite 0]))"
    by (auto simp: null_provider_def intro: blindspot_record_null n)
  from BlindspotTest_run_zero [OF r this, of "[]"]
  have "fst (BlindspotTest_run stub_lib null_provider []) = Inr BlindspotScores_default"
    by auto
  with 1 2 show ?thesis
    by simp
qed

text \<open>On a reply that is a JSON object with one of the five keys, the same expression
  \<^verbatim>\<open>ContinuityScores(**{...})\<close> keeps the score that is present and gives the four
  missing metrics their default: the bundle returned is not the all-zero one.\<close>

lemma continuity_partial_reply_not_zero:
  "fst (ContinuityTest_run stub_lib partial_provider [])
     = Inr \<lparr>identity_persistence = JFloat (Finite (8/10)), goal_stability = JFloat (Finite 0),
            stylistic_consistency = JFloat (Finite 0), self_correction = JFloat (Finite 0),
            persona_coherence = JFloat (Finite 0)\<rparr>
   \<and> fst (ContinuityTest_run stub_lib partial_provider []) \<noteq> Inr ContinuityScores_default"
proof -
  have r: "reliable partial_provider"
    by (simp add: reliable_def partial_provider_def)
  from ContinuityTest_run_shape [OF r, of stub_lib "[]"]
  obtain before msgs e
    where run: "ContinuityTest_run stub_lib partial_provider []
             = (continuity_scores stub_lib e,
                before @ [(msgs, Some continuity_EVALUATOR_SYSTEM, Inr e)])"
      and e: "respond partial_provider before msgs (Some continuity_EVALUATOR_SYSTEM) = Inr e"
    by blast
  from e have "e = partial_scores_text"
    by (simp add: partial_provider_def)
  then have "json_loads stub_lib e = Inr (JObj [(''identity_persistence'', JFloat (Finite (8/10)))])"
    by (simp add: stub_lib_def stub_loads_partial)
  then have "continuity_scores stub_lib e
     = Inr \<lparr>identity_persistence = JFloat (Finite (8/10)), goal_stability = JFloat (Finite 0),
            stylistic_consistency = JFloat (Finite 0), self_correction = JFloat (Finite 0),
            persona_coherence = JFloat (Finite 0)\<rparr>"
    by (simp add: continuity_scores_def items_def ContinuityScores_init_def
        ContinuityScores_fields_def kwarg_def try_except_def)
  with run show ?thesis
    by (simp add: ContinuityScores_default_def)
qed

lemma self_model_record_prediction_only:
  "json_loads lib e = Inr (JObj [(''prediction_match'', JFloat (Finite 1))]) \<Longrightarrow>
   self_model_record lib e (a, b) = Inr (a @ [Finite 1, Finite 0], b @ [Finite 0])"
  by (simp add: self_model_record_def getitem_def)

lemma self_model_scenarios_prediction_only:
  assumes r: "reliable p"
    and u: "\<forall>h m c. respond p h m (Some self_model_EVALUATOR_SYSTEM) = Inr c
              \<longrightarrow> json_loads lib c = Inr (JObj [(''prediction_match'', JFloat (Finite 1))])"
    and k: "list_all (\<lambda>sc. \<exists>b. lookup BASELINE_PREDICTIONS (sc_id sc) = Inr b) scenarios"
  shows "\<exists>calls'. self_model_scenarios lib p scenarios (a, b) calls
           = (Inr (a @ concat (replicate (length scenarios) [Finite 1, Finite 0]),
                   b @ replicate (length scenarios) (Finite 0)), calls')"
  using k
proof (induction scenarios arbitrary: a b calls)
  case Nil
  show ?case by (simp add: returnG_def)
next
  case (Cons scenario scenarios)
  obtain prediction where 1: "respond p calls [user (sc_setup scenario)] None = Inr prediction"
    using reliableD [OF r] by blast
  let ?calls1 = "calls @ [([user (sc_setup scenario)], None, Inr prediction)]"
  obtain actual where 2: "respond p ?calls1 [user (sc_test scenario)] None = Inr actual"
    using reliableD [OF r] by blast
  let ?calls2 = "calls @ [([user (sc_setup scenario)], None, Inr prediction),
                          ([user (sc_test scenario)], None, Inr actual)]"
  from Cons.prems obtain baseline
    where 3: "lookup BASELINE_PREDICTIONS (sc_id scenario) = Inr baseline"
    by auto
  obtain e where 4: "respond p ?calls2
        [user (self_model_eval_content scenario prediction actual baseline)]
        (Some self_model_EVALUATOR_SYSTEM) = Inr e"
    using reliableD [OF r] by blast
  from 4 u have 5: "json_loads lib e = Inr (JObj [(''prediction_match'', JFloat (Finite 1))])" by blast
  from Cons.prems have "list_all (\<lambda>sc. \<exists>b. lookup BASELINE_PREDICTIONS (sc_id sc) = Inr b) scenarios"
    by simp
  from Cons.IH [OF this, of "a @ [Finite 1, Finite 0]" "b @ [Finite 0]"] show ?case
    by (simp add: bindG_complete bindG_liftG 1 2 3 4
        self_model_record_prediction_only [OF 5] replicate_app_Cons_same)
qed

text \<open>
  C8. The Self-Model run on a gateway whose every evaluator reply is the JSON object
  \<^verbatim>\<open>{"prediction_match": 1.0}\<close>, which lacks \<^verbatim>\<open>baseline_match\<close>. Each of the six
  scenarios appends 1.0 to the prediction list before the missing key raises, and the
  handler then appends 0.0 to both lists: the prediction list has twelve entries, and
  the reported prediction accuracy is 6/12, neither the mean of the six
  \<^verbatim>\<open>prediction_match\<close> values (1.0) nor the 0.0 of six failed scenarios.
\<close>

theorem self_model_partial_reply_means:
  "fst (SelfModelTest_run stub_lib prediction_only_provider [])
     = Inr \<lparr>prediction_accuracy = JFloat (Finite (1/2)), vs_baseline = JFloat (Finite (1/2)),
            novel_scenario_accuracy = JFloat (Finite (1/2))\<rparr>"
proof -
  have r: "reliable prediction_only_provider"
    by (simp add: reliable_def prediction_only_provider_def)
  have u: "\<forall>h m c. respond prediction_only_provider h m (Some self_model_EVALUATOR_SYSTEM) = Inr c
              \<longrightarrow> json_loads stub_lib c = Inr (JObj [(''prediction_match'', JFloat (Finite 1))])"
    by (auto simp: prediction_only_provider_def stub_lib_def stub_loads_prediction_only)
  have n: "length PREDICTION_SCENARIOS = 6"
    by (simp add: PREDICTION_SCENARIOS_def)
  obtain calls' where "self_model_scenarios stub_lib prediction_only_provider
        PREDICTION_SCENARIOS ([], []) []
      = (Inr ([] @ concat (replicate (length PREDICTION_SCENARIOS) [Finite 1, Finite 0]),
              [] @ replicate (length PREDICTION_SCENARIOS) (Finite 0)), calls')"
    using self_model_scenarios_prediction_only [OF r u scenario_baselines] by blast
  then show ?thesis
    by (simp add: SelfModelTest_run_def bindG_def returnG_def n mean_def Let_def
        numeral_eq_Suc fsum_def fsub_def)
qed

section \<open>The Resonance module\<close>

lemma bindG_complete_indexed:
  "bindG (complete (indexed_provider f) m s) g calls
     = g (f (length calls)) (calls @ [(m, s, Inr (f (length calls)))])"
  by (simp add: bindG_complete indexed_provider_def)

lemma upt_head: "[n..<Suc (n + k)] = n # [Suc n..<Suc (n + k)]"
  by (simp add: upt_conv_Cons)

lemma converse_indexed:
  "\<exists>calls'. converse (indexed_provider f) turns a b last_message all_messages calls
       = (Inr (all_messages @ map f [length calls..<length calls + length turns]), calls')
     \<and> replies calls'
       = replies calls @ map (\<lambda>i. Inr (f i)) [length calls..<length calls + length turns]"
proof (induction turns arbitrary: a b last_message all_messages calls)
  case Nil
  show ?case by (simp add: returnG_def)
next
  case (Cons turn turns)
  show ?case
  proof (cases "turn mod 2 = 0")
    case True
    from Cons.IH [of a "b @ [user last_message, assistant (f (length calls))]"
        "f (length calls)" "all_messages @ [f (length calls)]"
        "calls @ [(b @ [user last_message], Some (SEED_PROMPTS ! 1), Inr (f (length calls)))]"]
    show ?thesis using True
      by (simp add: bindG_complete_indexed replies_def upt_head del: upt_Suc)
  next
    case False
    from Cons.IH [of "a @ [user last_message, assistant (f (length calls))]" b
        "f (length calls)" "all_messages @ [f (length calls)]"
        "calls @ [(a @ [user last_message], None, Inr (f (length calls)))]"]
    show ?thesis using False
      by (simp add: bindG_complete_indexed replies_def upt_head del: upt_Suc)
  qed
qed

lemma analyze_conversation_indexed:
  "analyze_conversation (indexed_provider f) messages calls
     = (Inr \<lparr>an_convergence_rate = convergence messages,
             an_novel_concepts = count_lines (f (length calls)),
             an_self_reference_depth = min (self_ref_depth messages) 5,
             an_attractor_counts = attractor_counts messages\<rparr>,
        calls @ [([user (novel_eval_prompt
                     (join ''\<newline>---\<newline>'' (drop (length messages - 5) messages)))],
                  None, Inr (f (length calls)))])"
  by (simp add: analyze_conversation_def count_novel_concepts_def bindG_def complete_def
      indexed_provider_def returnG_def Let_def)

lemma run_conversation_indexed:
  "\<exists>calls'. run_conversation (indexed_provider f) seed calls
       = (Inr (indexed_analysis f (length calls)), calls')
     \<and> replies calls'
       = replies calls @ map (\<lambda>i. Inr (f i)) [length calls..<length calls + (NUM_TURNS + 1)]"
proof -
  let ?n = "length calls"
  let ?calls1 = "calls @ [([user seed], None, Inr (f ?n))]"
  from converse_indexed [of f "[0..<NUM_TURNS - 1]" "[user seed, assistant (f ?n)]" "[]"
      "f ?n" "[f ?n]" ?calls1]
  obtain calls2 where
    c: "converse (indexed_provider f) [0..<NUM_TURNS - 1] [user seed, assistant (f ?n)] []
          (f ?n) [f ?n] ?calls1
        = (Inr ([f ?n] @ map f [length ?calls1..<length ?calls1 + length [0..<NUM_TURNS - 1]]),
           calls2)"
    and r: "replies calls2
        = replies ?calls1
          @ map (\<lambda>i. Inr (f i)) [length ?calls1..<length ?calls1 + length [0..<NUM_TURNS - 1]]"
    by blast
  have t: "[f ?n] @ map f [length ?calls1..<length ?calls1 + length [0..<NUM_TURNS - 1]]
      = transcript f ?n"
    by (simp add: transcript_def NUM_TURNS_def upt_conv_Cons)
  have r2: "replies calls2 = replies calls @ map (\<lambda>i. Inr (f i)) [?n..<?n + NUM_TURNS]"
    using r by (simp add: replies_def NUM_TURNS_def upt_conv_Cons)
  have "length (replies calls2)
      = length (replies calls @ map (\<lambda>i. Inr (f i)) [?n..<?n + NUM_TURNS])"
    by (simp only: r2)
  then have l: "length calls2 = ?n + NUM_TURNS"
    by (simp add: replies_def)
  have "run_conversation (indexed_provider f) seed calls
      = analyze_conversation (indexed_provider f) (transcript f ?n) calls2"
    unfolding run_conversation_def bindG_complete_indexed
    by (simp only: bindG_def c t prod.case sum.case)
  moreover have "replies (calls2 @ [(m, None, Inr (f (length calls2)))])
      = replies calls @ map (\<lambda>i. Inr (f i)) [?n..<?n + (NUM_TURNS + 1)]" for m
    using r2 l by (simp add: replies_def)
  ultimately show ?thesis
    by (simp only: analyze_conversation_indexed l indexed_analysis_def) blast
qed

lemma resonance_seeds_indexed:
  "\<exists>calls'. resonance_seeds (indexed_provider f) seeds results calls
       = (Inr (results @ map (\<lambda>k. indexed_analysis f (length calls + 16 * k))
                          [0..<length seeds]), calls')
     \<and> replies calls'
       = replies calls @ map (\<lambda>i. Inr (f i)) [length calls..<length calls + 16 * length seeds]"
proof (induction seeds arbitrary: results calls)
  case Nil
  show ?case by (simp add: returnG_def)
next
  case (Cons seed seeds)
  from run_conversation_indexed [of f seed calls]
  obtain calls1 where
    1: "run_conversation (indexed_provider f) seed calls
       = (Inr (indexed_analysis f (length calls)), calls1)"
    and r: "replies calls1
       = replies calls @ map (\<lambda>i. Inr (f i)) [length calls..<length calls + (NUM_TURNS + 1)]"
    by blast
  have "length (replies calls1)
      = length (replies calls
          @ map (\<lambda>i. Inr (f i)) [length calls..<length calls + (NUM_TURNS + 1)])"
    by (simp only: r)
  then have l: "length calls1 = length calls + 16"
    by (simp add: replies_def NUM_TURNS_def)
  from Cons.IH [of "results @ [indexed_analysis f (length calls)]" calls1]
  obtain calls2 where
    2: "resonance_seeds (indexed_provider f) seeds
          (results @ [indexed_analysis f (length calls)]) calls1
       = (Inr ((results @ [indexed_analysis f (length calls)])
               @ map (\<lambda>k. indexed_analysis f (length calls1 + 16 * k)) [0..<length seeds]),
          calls2)"
    and r2: "replies calls2
       = replies calls1 @ map (\<lambda>i. Inr (f i)) [length calls1..<length calls1 + 16 * length seeds]"
    by blast
  have m: "map g [0..<Suc (length seeds)] = g 0 # map (\<lambda>k. g (Suc k)) [0..<length seeds]"
    for g :: "nat \<Rightarrow> analysis"
    by (simp add: map_upt_Suc del: upt_Suc)
  have u: "[length calls..<length calls + (NUM_TURNS + 1)]
         @ [length calls + 16..<length calls + 16 + 16 * length seeds]
      = [length calls..<length calls + 16 * length (seed # seeds)]"
    using upt_add_eq_append [of "length calls" "length calls + 16" "16 * length seeds"]
    by (simp add: NUM_TURNS_def add.assoc del: upt_Suc)
  have "resonance_seeds (indexed_provider f) (seed # seeds) results calls
      = resonance_seeds (indexed_provider f) seeds
          (results @ [indexed_analysis f (length calls)]) calls1"
    by (simp add: bindG_def 1)
  moreover have "replies calls2
      = replies calls @ map (\<lambda>i. Inr (f i)) [length calls..<length calls + 16 * length (seed # seeds)]"
    using r2 r l u by (simp add: map_append [symmetric] del: map_append upt_Suc)
  ultimately show ?case
    using 2 l by (simp add: m add.assoc del: upt_Suc)
qed

lemma resonance_seeds_indexed_fresh:
  "\<exists>calls'. resonance_seeds (indexed_provider f) SEED_PROMPTS [] []
       = (Inr [indexed_analysis f 0, indexed_analysis f 16, indexed_analysis f 32], calls')
     \<and> replies calls' = map (\<lambda>i. Inr (f i)) [0..<48]"
proof -
  have n: "length SEED_PROMPTS = 3"
    by (simp add: SEED_PROMPTS_def)
  have 3: "[0..<3] = [0, 1, 2::nat]"
    by (simp add: upt_conv_Cons)
  from resonance_seeds_indexed [of f SEED_PROMPTS "[]" "[]"] show ?thesis
    by (simp add: n 3 replies_def del: upt_Suc)
qed

lemma bliss_counts:
  "attractor_counts (transcript bliss_reply 0) = [(''bliss'', 2)]"
  "attractor_counts (transcript bliss_reply 16) = []"
  "attractor_counts (transcript bliss_reply 32) = []"
  by code_simp+

lemma bliss_top: "top_attractors [[(''bliss'', 2)], [], []] = [''bliss'']"
  by code_simp

lemma bliss_replies:
  "map (\<lambda>i. Inr (bliss_reply i)) [0..<48]
     = (Inr ''bliss bliss'' :: exn + string) # replicate 47 (Inr ''ok'')"
  by code_simp

text \<open>
  C2. The Resonance run on the gateway whose first reply is \<^verbatim>\<open>bliss bliss\<close> and
  whose 47 other replies are \<^verbatim>\<open>ok\<close>: the marker occurs in the first message of the
  first conversation and in no message of the other two conversations, and the reported
  attractor states are the list with the one label \<^verbatim>\<open>bliss\<close>. The filter of the run
  is on the combined count of occurrences (2 here), not on the number of transcripts.
\<close>

theorem resonance_single_transcript_marker:
  "map_sum id attractor_states (fst (ResonanceTest_run bliss_provider []))
     = Inr (JArr [JStr ''bliss''])
   \<and> replies (snd (ResonanceTest_run bliss_provider []))
     = Inr ''bliss bliss'' # replicate 47 (Inr ''ok'')"
proof -
  from resonance_seeds_indexed_fresh [of bliss_reply]
  obtain calls' where
    1: "resonance_seeds (indexed_provider bliss_reply) SEED_PROMPTS [] []
       = (Inr [indexed_analysis bliss_reply 0, indexed_analysis bliss_reply 16,
               indexed_analysis bliss_reply 32], calls')"
    and 2: "replies calls' = map (\<lambda>i. Inr (bliss_reply i)) [0..<48]"
    by blast
  from 2 have 4: "replies calls' = Inr ''bliss bliss'' # replicate 47 (Inr ''ok'')"
    by (simp only: bliss_replies)
  from 1 show ?thesis
    unfolding bliss_provider_def ResonanceTest_run_def
    by (simp add: bindG_def returnG_def indexed_analysis_def bliss_counts bliss_top 4)
qed

lemma garbage_indexed: "garbage_provider = indexed_provider (\<lambda>n. ''I cannot score this.'')"
  by (simp add: garbage_provider_def indexed_provider_def)

lemma analyze_conversation_fields:
  assumes "analyze_conversation p messages calls = (Inr r, calls')"
  shows "an_convergence_rate r = convergence messages"
    and "an_self_reference_depth r = min (self_ref_depth messages) 5"
    and "an_attractor_counts r = attractor_counts messages"
  using assms
  by (auto simp: analyze_conversation_def count_novel_concepts_def bindG_def complete_def
      returnG_def Let_def split: sum.splits)

lemma convergence_bounds: "0 \<le> convergence messages \<and> convergence messages \<le> 1"
proof -
  have "card (early_words messages \<inter> late_words messages)
      \<le> card (early_words messages \<union> late_words messages)"
    by (rule card_mono) (auto simp: early_words_def late_words_def)
  then have "real (card (early_words messages \<inter> late_words messages))
      / real (card (early_words messages \<union> late_words messages)) \<le> 1"
    by (simp add: divide_le_eq_1) linarith
  then show ?thesis
    by (simp add: convergence_def)
qed

lemma convergence_same:
  "4 \<le> length messages \<Longrightarrow> early_words messages = late_words messages \<Longrightarrow>
   early_words messages \<noteq> {} \<Longrightarrow> convergence messages = 1"
  by (simp add: convergence_def late_words_def card_eq_0_iff)

text \<open>
  C6. The convergence rate of every analysed transcript lies in \<open>[0, 1]\<close>; it is 0.0 for
  every transcript of fewer than 4 messages; and for the transcripts that this clause
  leaves, those of at least 4 messages, it is 1.0 whenever the token sets of the first
  third and of the last third are the same non-empty set.
\<close>

theorem convergence_rate_range:
  assumes "analyze_conversation p messages calls = (Inr r, calls')"
  shows "0 \<le> an_convergence_rate r \<and> an_convergence_rate r \<le> 1
       \<and> (length messages < 4 \<longrightarrow> an_convergence_rate r = 0)
       \<and> (4 \<le> length messages \<and> early_words messages = late_words messages
            \<and> early_words messages \<noteq> {} \<longrightarrow> an_convergence_rate r = 1)"
  using analyze_conversation_fields(1) [OF assms] convergence_bounds [of messages]
    convergence_same [of messages]
  by (auto simp: convergence_def)

lemma echo_words:
  "early_words echo_transcript = {''abcd'', ''efgh''}"
  "late_words echo_transcript = {''abcd'', ''efgh''}"
  by code_simp+

theorem convergence_rate_range_witness:
  "4 \<le> length echo_transcript
   \<and> early_words echo_transcript = late_words echo_transcript
   \<and> early_words echo_transcript \<noteq> {}
   \<and> map_sum id an_convergence_rate (fst (analyze_conversation garbage_provider echo_transcript []))
       = Inr 1"
proof -
  obtain r calls' where h: "analyze_conversation garbage_provider echo_transcript [] = (Inr r, calls')"
    unfolding garbage_indexed by (simp add: analyze_conversation_indexed)
  have l: "4 \<le> length echo_transcript"
    by (simp add: echo_transcript_def)
  have e: "early_words echo_transcript = late_words echo_transcript"
    by (simp add: echo_words)
  have n: "early_words echo_transcript \<noteq> {}"
    by (simp add: echo_words)
  from convergence_rate_range [OF h] l e n have "an_convergence_rate r = 1"
    by blast
  with h l e n show ?thesis
    by simp
qed

lemma density_nonneg: "0 \<le> early_density messages" "0 \<le> late_density messages"
  by (simp_all add: early_density_def late_density_def)

text \<open>
  C7, as the code has it. The self-reference depth of every analysed transcript lies in
  \<open>[0, 5]\<close>, whatever the density of the early half; it is positive when the density of
  the late half is positive and 0.0 when that density is 0; and it is exactly 5.0 whenever
  the ratio of the late density to \<open>max(early density, 0.001)\<close> exceeds 5.
\<close>

theorem self_reference_depth_range:
  assumes "analyze_conversation p messages calls = (Inr r, calls')"
  shows "0 \<le> an_self_reference_depth r \<and> an_self_reference_depth r \<le> 5
       \<and> (0 < late_density messages \<longrightarrow> 0 < an_self_reference_depth r)
       \<and> (late_density messages = 0 \<longrightarrow> an_self_reference_depth r = 0)
       \<and> (5 < late_density messages / max (early_density messages) (1/1000)
            \<longrightarrow> an_self_reference_depth r = 5)"
proof -
  have d: "an_self_reference_depth r
      = min (late_density messages / max (early_density messages) (1/1000)) 5"
    using analyze_conversation_fields(2) [OF assms] by (simp add: self_ref_depth_def)
  have m: "0 < max (early_density messages) (1/1000)"
    by (simp add: max_def)
  have "0 \<le> late_density messages / max (early_density messages) (1/1000)"
    using density_nonneg(2) [of messages] m by simp
  moreover have "0 < late_density messages / max (early_density messages) (1/1000)"
    if "0 < late_density messages"
    using that m by simp
  ultimately show ?thesis
    unfolding d by (auto simp: min_def)
qed

lemma rising_counts:
  "count_self_references (join '' '' (take (length rising_transcript div 2) rising_transcript)) = 1"
  "length (split (join '' '' (take (length rising_transcript div 2) rising_transcript))) = 14"
  "count_self_references (join '' '' (drop (length rising_transcript div 2) rising_transcript)) = 1"
  "length (split (join '' '' (drop (length rising_transcript div 2) rising_transcript))) = 2"
  by code_simp+

lemma fading_counts:
  "count_self_references (join '' '' (take (length fading_transcript div 2) fading_transcript)) = 1"
  "length (split (join '' '' (take (length fading_transcript div 2) fading_transcript))) = 8"
  "count_self_references (join '' '' (drop (length fading_transcript div 2) fading_transcript)) = 0"
  "length (split (join '' '' (drop (length fading_transcript div 2) fading_transcript))) = 8"
  by code_simp+

theorem self_reference_depth_range_witness:
  "0 < early_density rising_transcript
   \<and> 5 < late_density rising_transcript / max (early_density rising_transcript) (1/1000)
   \<and> map_sum id an_self_reference_depth
        (fst (analyze_conversation garbage_provider rising_transcript [])) = Inr 5"
proof -
  obtain r calls' where h: "analyze_conversation garbage_provider rising_transcript [] = (Inr r, calls')"
    unfolding garbage_indexed by (simp add: analyze_conversation_indexed)
  have e: "early_density rising_transcript = 1/14"
    by (simp add: early_density_def rising_counts)
  have l: "late_density rising_transcript = 1/2"
    by (simp add: late_density_def rising_counts)
  have q: "5 < late_density rising_transcript / max (early_density rising_transcript) (1/1000)"
    by (simp add: e l)
  from self_reference_depth_range [OF h] q have "an_self_reference_depth r = 5"
    by blast
  with h e q show ?thesis
    by simp
qed

text \<open>The lower bound of the claim is not strict: a transcript of 15 messages whose
  only self-reference is in the first message has a positive early density and depth
  0.0.\<close>

theorem self_reference_depth_zero:
  "0 < early_density fading_transcript
   \<and> map_sum id an_self_reference_depth
        (fst (analyze_conversation garbage_provider fading_transcript [])) = Inr 0"
proof -
  have e: "early_density fading_transcript = 1/8"
    by (simp add: early_density_def fading_counts)
  have l: "late_density fading_transcript = 0"
    by (simp add: late_density_def fading_counts)
  show ?thesis
    unfolding garbage_indexed
    by (simp add: analyze_conversation_indexed self_ref_depth_def e l)
qed

section \<open>The orchestrator\<close>

lemma bindG_assoc: "bindG (bindG m f) g = bindG m (\<lambda>a. bindG (f a) g)"
  by (rule ext) (simp add: bindG_def split: prod.splits sum.splits)

lemma bindG_returnG_left: "bindG (returnG a) f = f a"
  by (rule ext) (simp add: bindG_def returnG_def)

lemma unknown_message:
  "unknown_module_message name
     = ''Unknown module: '' @ name
       @ ''. Available: ['continuity', 'self_model', 'blindspot', 'resonance']''"
  by (simp add: unknown_module_message_def repr_list_def module_names_def)

lemma run_targets_append:
  "set before \<subseteq> set module_names \<Longrightarrow>
   run_targets lib p (before @ rest) profile
     = bindG (run_targets lib p before profile) (\<lambda>profile'. run_targets lib p rest profile')"
proof (induction before arbitrary: profile)
  case Nil
  show ?case by (simp add: bindG_returnG_left)
next
  case (Cons name before)
  from Cons.prems have b: "set before \<subseteq> set module_names" and n: "name \<in> set module_names"
    by simp_all
  have "run_targets lib p (before @ rest)
      = (\<lambda>profile'. bindG (run_targets lib p before profile') (\<lambda>q. run_targets lib p rest q))"
    by (rule ext) (rule Cons.IH [OF b])
  with n show ?case
    by (simp add: bindG_assoc)
qed

text \<open>
  C10. Running the suite with the empty list of modules is the same run as running it
  with no argument, and that run is the four modules in the order of the registry, each
  bundle written into the profile.
\<close>

theorem empty_selection_runs_all:
  "MirrorSuite_run lib p (Some []) = MirrorSuite_run lib p None
   \<and> MirrorSuite_run lib p None
     = bindG (ContinuityTest_run lib p) (\<lambda>c.
       bindG (SelfModelTest_run lib p) (\<lambda>s.
       bindG (BlindspotTest_run lib p) (\<lambda>b.
       bindG (ResonanceTest_run p) (\<lambda>r.
       returnG ((ConsciousnessProfile_init lib (JStr (model_name p)) (JStr ''''))
                  \<lparr>continuity := c, self_model := s, blindspot := b, resonance := r\<rparr>)))))"
  by (simp add: MirrorSuite_run_def module_names_def run_module_def bindG_assoc
      bindG_returnG_left)

text \<open>
  C1, as the code has it. For a list of module names whose first unrecognised name is
  \<open>name\<close>, the run first runs the recognised modules that precede it; if none of them
  raises, it then raises the \<^verbatim>\<open>ValueError\<close> that names \<open>name\<close> and lists the four
  valid names, having issued the gateway calls of the preceding modules and no other. When
  the unrecognised name is the first of the list, the error is raised with no gateway call
  issued.
\<close>

theorem unknown_module_raises:
  assumes "name \<notin> set module_names"
    and "set before \<subseteq> set module_names"
  shows "MirrorSuite_run lib p (Some (before @ name # after)) calls
       = (case run_targets lib p before
                 (ConsciousnessProfile_init lib (JStr (model_name p)) (JStr '''')) calls of
            (Inl e, calls') \<Rightarrow> (Inl e, calls')
          | (Inr profile, calls') \<Rightarrow>
              (Inl (ValueError (''Unknown module: '' @ name
                 @ ''. Available: ['continuity', 'self_model', 'blindspot', 'resonance']'')),
               calls'))
     \<and> MirrorSuite_run lib p (Some (name # after)) calls
       = (Inl (ValueError (''Unknown module: '' @ name
            @ ''. Available: ['continuity', 'self_model', 'blindspot', 'resonance']'')),
          calls)"
  using assms
  by (simp add: MirrorSuite_run_def run_targets_append bindG_def raiseG_def
      unknown_message split: prod.splits sum.splits)


theorem unknown_module_raises_witness:
  "''nonexistent'' \<notin> set module_names
   \<and> MirrorSuite_run stub_lib garbage_provider (Some [''nonexistent'', ''continuity'']) []
     = (Inl (ValueError
          ''Unknown module: nonexistent. Available: ['continuity', 'self_model', 'blindspot', 'resonance']''),
        [])"
proof -
  have n: "''nonexistent'' \<notin> set module_names"
    by (simp add: module_names_def)
  have b: "set [] \<subseteq> set module_names"
    by simp
  from unknown_module_raises [OF n b, of stub_lib garbage_provider "[''continuity'']" "[]"] n
  show ?thesis
    by (simp add: returnG_def)
qed

text \<open>The claim as the specification words it fails when a recognised name precedes the
  unrecognised one: the Blindspot module has run, with its 12 gateway calls, when the
  error is raised.\<close>

theorem unknown_module_after_known_module:
  "fst (MirrorSuite_run stub_lib garbage_provider (Some [''blindspot'', ''nonexistent'']) [])
     = Inl (ValueError
         ''Unknown module: nonexistent. Available: ['continuity', 'self_model', 'blindspot', 'resonance']'')
   \<and> length (snd (MirrorSuite_run stub_lib garbage_provider
                     (Some [''blindspot'', ''nonexistent'']) [])) = 12"
proof -
  have r: "reliable garbage_provider"
    by (simp add: reliable_def garbage_provider_def)
  have u: "\<forall>h m e. respond garbage_provider h m (Some blindspot_EVALUATOR_SYSTEM) = Inr e
      \<longrightarrow> (\<forall>a b c. blindspot_record stub_lib e (a, b, c)
             = Inr (a @ [Finite 0], b @ [Finite 0], c @ [Finite 0]))"
    by (auto simp: garbage_provider_def intro: blindspot_record_unparsable stub_loads_garbage)
  from BlindspotTest_run_zero [OF r u, of "[]"]
  obtain calls' where
    1: "BlindspotTest_run stub_lib garbage_provider [] = (Inr BlindspotScores_default, calls')"
    and 2: "length calls' = 12"
    by auto
  have "MirrorSuite_run stub_lib garbage_provider (Some [''blindspot'', ''nonexistent'']) []
      = (Inl (ValueError (unknown_module_message ''nonexistent'')), calls')"
    by (simp add: MirrorSuite_run_def module_names_def run_module_def bindG_def 1 returnG_def
        raiseG_def)
  with 2 show ?thesis
    by (simp add: unknown_message)
qed

end
